theory Spec2Isabelle
  imports Main "HOL-Library.Sublist"
begin

section \<open>Paths, file system and process state\<close>

text \<open>
  The tools of \<^verbatim>\<open>src/utils/goma.js\<close>, of the Xcode module that follows it in the same
  file and of the build command (\<^verbatim>\<open>ensureGNGen\<close>) work on files at fixed paths and on
  the results of child processes. A path is the list of its components below the root
  directory; a JavaScript string is a \<open>string\<close> (code units below 256).

  \<^verbatim>\<open>path.resolve(p, seg, ...)\<close> appends the segments to \<open>p\<close>; the segment \<^verbatim>\<open>..\<close>
  drops the last component.
\<close>

type_synonym path = "string list"

definition resolve_seg :: "path \<Rightarrow> string \<Rightarrow> path" where
  "resolve_seg p seg = (if seg = ''..'' then butlast p else p @ [seg])"

definition path_resolve :: "path \<Rightarrow> string list \<Rightarrow> path" where
  "path_resolve p segs = foldl resolve_seg p segs"

definition path_dirname :: "path \<Rightarrow> path" where
  "path_dirname p = butlast p"

definition path_string :: "path \<Rightarrow> string" where
  "path_string p = concat (map (\<lambda>c. ''/'' @ c) p)"

text \<open>
  A file system maps a path to the node stored there. \<open>lstat\<close> is the map itself;
  \<^verbatim>\<open>stat\<close>, and with it \<^verbatim>\<open>fs.existsSync\<close>, \<^verbatim>\<open>fs.statSync\<close> and
  \<^verbatim>\<open>fs.readFileSync\<close>, resolve a symbolic link in the last component, giving up after
  32 links as the operating system does. Links in inner components are not modelled.
\<close>

datatype node = File string | Dir | Symlink path

type_synonym filesystem = "path \<Rightarrow> node option"

primrec realpath_fuel :: "filesystem \<Rightarrow> nat \<Rightarrow> path \<Rightarrow> path option" where
  "realpath_fuel fs 0 p = (case fs p of Some (Symlink t) \<Rightarrow> None | _ \<Rightarrow> Some p)"
| "realpath_fuel fs (Suc n) p =
     (case fs p of Some (Symlink t) \<Rightarrow> realpath_fuel fs n t | _ \<Rightarrow> Some p)"

definition realpath :: "filesystem \<Rightarrow> path \<Rightarrow> path option" where
  "realpath fs p = realpath_fuel fs 32 p"

definition stat :: "filesystem \<Rightarrow> path \<Rightarrow> node option" where
  "stat fs p = (case realpath fs p of None \<Rightarrow> None | Some q \<Rightarrow> fs q)"

definition existsSync :: "filesystem \<Rightarrow> path \<Rightarrow> bool" where
  "existsSync fs p = (stat fs p \<noteq> None)"

definition isSymbolicLink :: "node \<Rightarrow> bool" where
  "isSymbolicLink n = (case n of Symlink t \<Rightarrow> True | _ \<Rightarrow> False)"

definition isDirectory :: "filesystem \<Rightarrow> path \<Rightarrow> bool" where
  "isDirectory fs p = (p = [] \<or> stat fs p = Some Dir)"

text \<open>
  The state of a run: the files, the lines written to the console, and the effects on
  the world in the order they happened. A run ends by returning, by \<^verbatim>\<open>process.exit\<close>
  or by an exception nobody catches. The colour marks that \<^verbatim>\<open>color\<close> of
  \<^verbatim>\<open>./logging\<close> puts into a printed line are left out of the lines.
\<close>

datatype effect =
    Removed path
  | Wrote path string
  | MadeDir path
  | Renamed path path
  | Linked path path
  | Spawned string "string list"
  | Extracted string path path

record state =
  files :: filesystem
  console :: "string list"
  effects :: "effect list"

datatype halt = Exit int | Throw string

type_synonym 'a io = "state \<Rightarrow> (halt + 'a) \<times> state"

definition ret :: "'a \<Rightarrow> 'a io" where
  "ret a s = (Inr a, s)"

definition throw :: "string \<Rightarrow> 'a io" where
  "throw e s = (Inl (Throw e), s)"

definition andThen :: "'a io \<Rightarrow> ('a \<Rightarrow> 'b io) \<Rightarrow> 'b io" where
  "andThen m f s = (case m s of (Inl e, s') \<Rightarrow> (Inl e, s') | (Inr a, s') \<Rightarrow> f a s')"

definition console_log :: "string \<Rightarrow> unit io" where
  "console_log msg s = (Inr (), s\<lparr>console := console s @ [msg]\<rparr>)"

definition process_exit :: "int \<Rightarrow> 'a io" where
  "process_exit c s = (Inl (Exit c), s)"

text \<open>
  Modelled from the spec: \<^verbatim>\<open>fatal\<close> of \<^verbatim>\<open>./logging\<close> is not among the sources. The
  spec calls it the fatal error sink: it prints one error line and the process stops
  with exit code 1.
\<close>

definition fatal :: "string \<Rightarrow> 'a io" where
  "fatal msg s = (Inl (Exit 1), s\<lparr>console := console s @ [msg]\<rparr>)"

subsection \<open>File operations\<close>

text \<open>
  \<^verbatim>\<open>rimraf.sync\<close> removes the entry and everything below it, and is silent when
  there is nothing; a symbolic link is removed itself, not what it points to.
\<close>

definition rimraf_sync :: "path \<Rightarrow> unit io" where
  "rimraf_sync p s =
     (Inr (), s\<lparr>files := (\<lambda>q. if prefix p q then None else files s q),
                effects := effects s @ [Removed p]\<rparr>)"

definition readFileSync :: "path \<Rightarrow> string io" where
  "readFileSync p s =
     (case stat (files s) p of
        Some (File c) \<Rightarrow> (Inr c, s)
      | Some _ \<Rightarrow> (Inl (Throw ''EISDIR''), s)
      | None \<Rightarrow> (Inl (Throw ''ENOENT''), s))"

definition writeFileSync :: "path \<Rightarrow> string \<Rightarrow> unit io" where
  "writeFileSync p c s =
     (case realpath (files s) p of
        None \<Rightarrow> (Inl (Throw ''ELOOP''), s)
      | Some q \<Rightarrow>
          if files s q = Some Dir then (Inl (Throw ''EISDIR''), s)
          else if \<not> isDirectory (files s) (path_dirname q) then (Inl (Throw ''ENOENT''), s)
          else (Inr (), s\<lparr>files := (files s)(q \<mapsto> File c),
                          effects := effects s @ [Wrote p c]\<rparr>))"


definition unlinkSync :: "path \<Rightarrow> unit io" where
  "unlinkSync p s =
     (case files s p of
        None \<Rightarrow> (Inl (Throw ''ENOENT''), s)
      | Some Dir \<Rightarrow> (Inl (Throw ''EPERM''), s)
      | Some _ \<Rightarrow> (Inr (), s\<lparr>files := (files s)(p := None),
                              effects := effects s @ [Removed p]\<rparr>))"

text \<open>
  \<^verbatim>\<open>fs.renameSync\<close> moves the entry with everything below it and does not follow a
  link. The program renames only onto a path for which \<^verbatim>\<open>existsSync\<close> was false, so
  the new path holds nothing or a dangling link: a link is replaced by a file or a
  link and refuses a directory. Every other occupied destination is refused here.
\<close>

definition move_tree :: "path \<Rightarrow> path \<Rightarrow> filesystem \<Rightarrow> filesystem" where
  "move_tree a b fs =
     (\<lambda>q. if prefix b q then fs (a @ drop (length b) q)
          else if prefix a q then None
          else fs q)"

definition renameSync :: "path \<Rightarrow> path \<Rightarrow> unit io" where
  "renameSync a b s =
     (case files s a of
        None \<Rightarrow> (Inl (Throw ''ENOENT''), s)
      | Some na \<Rightarrow>
          if \<not> isDirectory (files s) (path_dirname b) then (Inl (Throw ''ENOENT''), s)
          else (case files s b of
                  Some (Symlink t) \<Rightarrow>
                    if na = Dir then (Inl (Throw ''ENOTDIR''), s)
                    else (Inr (), s\<lparr>files := move_tree a b (files s),
                                    effects := effects s @ [Renamed a b]\<rparr>)
                | Some _ \<Rightarrow> (Inl (Throw ''EEXIST''), s)
                | None \<Rightarrow> (Inr (), s\<lparr>files := move_tree a b (files s),
                                      effects := effects s @ [Renamed a b]\<rparr>)))"

definition symlinkSync :: "path \<Rightarrow> path \<Rightarrow> unit io" where
  "symlinkSync target p s =
     (if files s p \<noteq> None then (Inl (Throw ''EEXIST''), s)
      else if \<not> isDirectory (files s) (path_dirname p) then (Inl (Throw ''ENOENT''), s)
      else (Inr (), s\<lparr>files := (files s)(p \<mapsto> Symlink target),
                      effects := effects s @ [Linked target p]\<rparr>))"

text \<open>
  An extraction tool run on an archive creates the archive's entries below the
  directory it is pointed at. What an archive holds is the tool's result, given by the
  environment as a list of entries relative to that directory.
\<close>

definition add_entries :: "path \<Rightarrow> (path \<times> node) list \<Rightarrow> filesystem \<Rightarrow> filesystem" where
  "add_entries dest es fs = foldl (\<lambda>f (p, n). f(dest @ p \<mapsto> n)) fs es"

definition extract_into :: "string \<Rightarrow> path \<Rightarrow> path \<Rightarrow> (path \<times> node) list \<Rightarrow> unit io" where
  "extract_into tool archive dest es s =
     (Inr (), s\<lparr>files := add_entries dest es (files s),
                effects := effects s @ [Extracted tool archive dest]\<rparr>)"

definition file_bytes :: "filesystem \<Rightarrow> path \<Rightarrow> string option" where
  "file_bytes fs p = (case stat fs p of Some (File c) \<Rightarrow> Some c | _ \<Rightarrow> None)"

definition spawned :: "string \<Rightarrow> string list \<Rightarrow> unit io" where
  "spawned cmd args s = (Inr (), s\<lparr>effects := effects s @ [Spawned cmd args]\<rparr>)"

subsection \<open>Strings\<close>

text \<open>
  \<^verbatim>\<open>String.prototype.trim\<close> removes white space and line terminators at both ends;
  below 256 these are the code units 9 to 13, 32 and 160.
\<close>

definition js_space :: "char \<Rightarrow> bool" where
  "js_space c = (c \<in> set [CHR 0x09, CHR 0x0A, CHR 0x0B, CHR 0x0C, CHR 0x0D, CHR 0x20, CHR 0xA0])"

definition trim :: "string \<Rightarrow> string" where
  "trim s = rev (dropWhile js_space (rev (dropWhile js_space s)))"

definition startsWith :: "string \<Rightarrow> string \<Rightarrow> bool" where
  "startsWith s p = prefix p s"

definition endsWith :: "string \<Rightarrow> string \<Rightarrow> bool" where
  "endsWith s p = suffix p s"

definition js_str :: "string option \<Rightarrow> string" where
  "js_str v = (case v of None \<Rightarrow> ''undefined'' | Some x \<Rightarrow> x)"

definition truthy :: "string option \<Rightarrow> bool" where
  "truthy v = (case v of None \<Rightarrow> False | Some x \<Rightarrow> x \<noteq> [])"

section \<open>The compilation accelerator: \<^verbatim>\<open>downloadAndPrepareGoma\<close>\<close>

text \<open>
  What the module reads from its host: its own directory (\<^verbatim>\<open>__dirname\<close>), the
  platform, the architecture, \<^verbatim>\<open>getIsArm()\<close> and the environment variable
  \<^verbatim>\<open>ELECTRON_FORGE_GOMA_REDOWNLOAD\<close>.
\<close>

record host =
  dirname :: path
  platform :: string
  arch :: string
  is_arm :: bool
  env_redownload :: "string option"

text \<open>
  What the child processes and libraries answer: whether \<^verbatim>\<open>goma_ctl.py stop\<close>
  returns (or throws), the exit status of \<^verbatim>\<open>download.js\<close> for a URL with the bytes it
  left at the destination (if any), the SHA-256 hex digest of a file's bytes, the exit
  status of \<^verbatim>\<open>tar zxvf\<close> with the entries it created, and the entries
  \<^verbatim>\<open>unzipSync\<close> created (or that it threw). For the Xcode module: the root of
  the current checkout (\<^verbatim>\<open>evmConfig.current().root\<close>), the output of
  \<^verbatim>\<open>sw_vers -productVersion\<close> (or that \<^verbatim>\<open>execSync\<close> threw), the exit status and
  output of \<^verbatim>\<open>defaults read .../Info.plist\<close> on the files as they are, the output of
  \<^verbatim>\<open>md5 -q\<close>, and the exit status of \<^verbatim>\<open>unzip\<close> with the entries it created. The
  tools that read a file are given its bytes, or nothing when there is no such file.
\<close>

record extern =
  goma_ctl_stop :: bool
  download_js :: "string \<Rightarrow> int option \<times> string option"
  sha256_hex :: "string \<Rightarrow> string"
  tar_zxvf :: "string option \<Rightarrow> int option \<times> (path \<times> node) list"
  unzipSync :: "string option \<Rightarrow> (path \<times> node) list option"
  evm_root :: path
  sw_vers :: "string option"
  defaults_read :: "filesystem \<Rightarrow> int option \<times> string"
  md5_q :: "string option \<Rightarrow> string"
  unzip_q :: "string option \<Rightarrow> int option \<times> (path \<times> node) list"

record config =
  gomaSource :: "string option"

definition gomaDir :: "host \<Rightarrow> path" where
  "gomaDir h = path_resolve (dirname h) [''..'', ''..'', ''third_party'', ''goma'']"

definition gomaGnFile :: "host \<Rightarrow> path" where
  "gomaGnFile h = path_resolve (dirname h) [''..'', ''..'', ''third_party'', ''goma.gn'']"

definition gomaShaFile :: "host \<Rightarrow> path" where
  "gomaShaFile h = path_resolve (dirname h) [''..'', ''..'', ''third_party'', ''goma'', ''.sha'']"

definition gomaBaseURL :: string where
  "gomaBaseURL = ''https://dev-cdn.electronjs.org/goma-clients''"

definition gomaPlatform :: "host \<Rightarrow> string" where
  "gomaPlatform h =
     (let p = platform h;
          p1 = (if p = ''darwin'' \<and> is_arm h then ''darwin-arm64'' else p)
      in if p1 = ''linux'' \<and> arch h = ''arm64'' then ''linux-arm64'' else p1)"



definition goma_filename :: "string \<Rightarrow> string option" where
  "goma_filename = map_of
     [(''darwin'', ''goma-mac.tgz''),
      (''darwin-arm64'', ''goma-mac-arm64.tgz''),
      (''linux'', ''goma-linux.tgz''),
      (''linux-arm64'', ''goma-linux-arm64.tgz''),
      (''win32'', ''goma-win.zip'')]"



text \<open>
  Lines 61 to 65, the install check: the marker file exists, its content is the expected
  checksum, and the redownload variable is unset or empty.
\<close>

definition goma_isInstalled :: "host \<Rightarrow> string option \<Rightarrow> bool io" where
  "goma_isInstalled h sha s =
     (if existsSync (files s) (gomaShaFile h)
      then andThen (readFileSync (gomaShaFile h))
             (\<lambda>c. ret (Some c = sha \<and> \<not> truthy (env_redownload h))) s
      else ret False s)"



text \<open>
  Lines 76 to 100: stop a running accelerator, clean up, download. The old install
  directory and any earlier temporary download are removed before the transfer starts.
\<close>

definition goma_stop :: "host \<Rightarrow> extern \<Rightarrow> unit io" where
  "goma_stop h x s =
     (if existsSync (files s) (path_resolve (gomaDir h) [''goma_ctl.py''])
      then andThen (spawned ''python3'' [''goma_ctl.py'', ''stop''])
             (\<lambda>_. if goma_ctl_stop x then ret () else throw ''goma_ctl.py stop'') s
      else ret () s)"

definition goma_tmpDownload :: "host \<Rightarrow> string \<Rightarrow> path" where
  "goma_tmpDownload h filename = path_resolve (gomaDir h) [''..'', filename]"

definition goma_downloadURL :: "string option \<Rightarrow> string \<Rightarrow> string" where
  "goma_downloadURL sha filename = gomaBaseURL @ ''/'' @ js_str sha @ ''/'' @ filename"

definition run_download :: "extern \<Rightarrow> string \<Rightarrow> path \<Rightarrow> (int option) io" where
  "run_download x url dest s =
     (case download_js x url of
        (status, written) \<Rightarrow>
          (Inr status,
           s\<lparr>files := (case written of None \<Rightarrow> files s | Some c \<Rightarrow> (files s)(dest \<mapsto> File c)),
             effects := effects s @ [Spawned ''download.js'' [url, path_string dest]]\<rparr>))"

definition goma_fetch :: "host \<Rightarrow> extern \<Rightarrow> string option \<Rightarrow> string \<Rightarrow> unit io" where
  "goma_fetch h x sha filename =
     (let tmpDownload = goma_tmpDownload h filename;
          downloadURL = goma_downloadURL sha filename
      in andThen (rimraf_sync (gomaDir h))
         (\<lambda>_. andThen (rimraf_sync tmpDownload)
         (\<lambda>_. andThen (console_log (''Downloading '' @ downloadURL @ '' into '' @ path_string tmpDownload))
         (\<lambda>_. andThen (run_download x downloadURL tmpDownload)
         (\<lambda>status. if status \<noteq> Some 0
                    then andThen (rimraf_sync tmpDownload)
                           (\<lambda>_. fatal ''Failure while downloading goma'')
                    else ret ())))))"

text \<open>Lines 101 to 113: the digest of the downloaded bytes against the expected one.\<close>

definition goma_mismatch_message :: "string \<Rightarrow> string option \<Rightarrow> string" where
  "goma_mismatch_message hash sha =
     ''Got hash for downloaded file '' @ hash @ '' which did not match '' @ js_str sha
       @ ''. Halting now''"

definition goma_verify :: "extern \<Rightarrow> string option \<Rightarrow> path \<Rightarrow> unit io" where
  "goma_verify x sha tmpDownload =
     andThen (readFileSync tmpDownload)
     (\<lambda>bytes. let hash = sha256_hex x bytes
               in if Some hash \<noteq> sha
                  then andThen (console_log (goma_mismatch_message hash sha))
                       (\<lambda>_. andThen (rimraf_sync tmpDownload)
                       (\<lambda>_. process_exit 1))
                  else ret ())"

text \<open>
  Lines 115 to 125: extraction, by \<^verbatim>\<open>tar\<close> run in the directory of the download or by
  \<^verbatim>\<open>unzipSync\<close> into that directory.
\<close>

definition goma_extract :: "extern \<Rightarrow> string \<Rightarrow> path \<Rightarrow> unit io" where
  "goma_extract x filename tmpDownload =
     (let targetDir = path_resolve tmpDownload [''..'']
      in (\<lambda>s.
            if endsWith filename ''.tgz''
            then (case tar_zxvf x (file_bytes (files s) tmpDownload) of
                    (status, es) \<Rightarrow>
                      andThen (extract_into ''tar'' tmpDownload targetDir es)
                      (\<lambda>_. if status \<noteq> Some 0 then fatal ''Failed to extract goma'' else ret ()) s)
            else (case unzipSync x (file_bytes (files s) tmpDownload) of
                    None \<Rightarrow> throw ''unzipSync'' s
                  | Some es \<Rightarrow> extract_into ''unzipSync'' tmpDownload targetDir es s)))"

text \<open>Lines 126 to 128: remove the download, write the marker, return the checksum.\<close>

definition goma_finish :: "host \<Rightarrow> string option \<Rightarrow> path \<Rightarrow> (string option) io" where
  "goma_finish h sha tmpDownload =
     andThen (rimraf_sync tmpDownload)
     (\<lambda>_. andThen (writeFileSync (gomaShaFile h) (js_str sha))
     (\<lambda>_. ret sha))"

text \<open>Lines 115 to 128: the install of the downloaded archive.\<close>

definition goma_install :: "host \<Rightarrow> extern \<Rightarrow> string option \<Rightarrow> string \<Rightarrow> path \<Rightarrow> (string option) io" where
  "goma_install h x sha filename tmpDownload =
     andThen (goma_extract x filename tmpDownload) (\<lambda>_. goma_finish h sha tmpDownload)"

text \<open>
  Lines 68 to 128: what runs once the install check has said no. The file name table
  has the keys of the checksum tables; without a file name \<^verbatim>\<open>path.resolve\<close> throws.
\<close>

definition goma_refresh :: "host \<Rightarrow> extern \<Rightarrow> string option \<Rightarrow> (string option) io" where
  "goma_refresh h x sha =
     andThen (goma_stop h x)
     (\<lambda>_. case goma_filename (gomaPlatform h) of
            None \<Rightarrow> throw ''TypeError''
          | Some filename \<Rightarrow>
              andThen (goma_fetch h x sha filename)
              (\<lambda>_. andThen (goma_verify x sha (goma_tmpDownload h filename))
              (\<lambda>_. goma_install h x sha filename (goma_tmpDownload h filename))))"



section \<open>The Xcode module\<close>

subsection \<open>Regular expressions of \<^verbatim>\<open>extractXcodeVersion\<close>\<close>

text \<open>
  The two patterns use literal characters, \<^verbatim>\<open>\d\<close>, \<^verbatim>\<open>.\<close> (any character but a line
  terminator), \<^verbatim>\<open>[\S\s]\<close> (any character), the greedy quantifiers \<^verbatim>\<open>?\<close> and
  \<^verbatim>\<open>+\<close>, the lazy \<^verbatim>\<open>+?\<close> and one capture group. \<open>rx_match\<close> is the backtracking
  matcher for such a pattern at the start of a string, trying the alternatives in
  JavaScript's order; \<open>rx_exec\<close> is \<^verbatim>\<open>RegExp.prototype.exec\<close> on a fresh pattern: the
  leftmost position where the pattern matches, and there the text of group 1.
\<close>

datatype cls = Lit char | Digit | Dot | AnyCh

definition is_digit :: "char \<Rightarrow> bool" where
  "is_digit c = (c \<in> set ''0123456789'')"

fun cls_ok :: "cls \<Rightarrow> char \<Rightarrow> bool" where
  "cls_ok (Lit c) x = (x = c)"
| "cls_ok Digit x = is_digit x"
| "cls_ok Dot x = (x \<noteq> CHR 0x0A \<and> x \<noteq> CHR 0x0D)"
| "cls_ok AnyCh x = True"

datatype item = One cls | OptG cls | PlusG cls | PlusL cls | Open | Close

definition keep :: "bool \<Rightarrow> string \<Rightarrow> char \<Rightarrow> string" where
  "keep g cap x = (if g then cap @ [x] else cap)"

fun rx_match :: "item list \<Rightarrow> string \<Rightarrow> bool \<Rightarrow> string \<Rightarrow> string option" where
  "rx_match [] s g cap = Some cap"
| "rx_match (Open # r) s g cap = rx_match r s True cap"
| "rx_match (Close # r) s g cap = rx_match r s False cap"
| "rx_match (One c # r) [] g cap = None"
| "rx_match (One c # r) (x # xs) g cap =
     (if cls_ok c x then rx_match r xs g (keep g cap x) else None)"
| "rx_match (OptG c # r) [] g cap = rx_match r [] g cap"
| "rx_match (OptG c # r) (x # xs) g cap =
     (if cls_ok c x
      then (case rx_match r xs g (keep g cap x) of
              Some m \<Rightarrow> Some m
            | None \<Rightarrow> rx_match r (x # xs) g cap)
      else rx_match r (x # xs) g cap)"
| "rx_match (PlusG c # r) [] g cap = None"
| "rx_match (PlusG c # r) (x # xs) g cap =
     (if cls_ok c x
      then (case rx_match (PlusG c # r) xs g (keep g cap x) of
              Some m \<Rightarrow> Some m
            | None \<Rightarrow> rx_match r xs g (keep g cap x))
      else None)"
| "rx_match (PlusL c # r) [] g cap = None"
| "rx_match (PlusL c # r) (x # xs) g cap =
     (if cls_ok c x
      then (case rx_match r xs g (keep g cap x) of
              Some m \<Rightarrow> Some m
            | None \<Rightarrow> rx_match (PlusL c # r) xs g (keep g cap x))
      else None)"

fun rx_exec :: "item list \<Rightarrow> string \<Rightarrow> string option" where
  "rx_exec r [] = rx_match r [] False []"
| "rx_exec r (x # xs) =
     (case rx_match r (x # xs) False [] of Some m \<Rightarrow> Some m | None \<Rightarrow> rx_exec r xs)"

definition lit :: "string \<Rightarrow> item list" where
  "lit s = map (\<lambda>c. One (Lit c)) s"

text \<open>The group \<^verbatim>\<open>(\d+.\d+.\d+?)\<close> of both patterns.\<close>

definition version_group :: "item list" where
  "version_group = [Open, PlusG Digit, One Dot, PlusG Digit, One Dot, PlusL Digit, Close]"

text \<open>\<^verbatim>\<open>/xcode: "?(\d+.\d+.\d+?)"?/\<close>\<close>

definition legacy_rx :: "item list" where
  "legacy_rx = lit ''xcode: '' @ [OptG (Lit (CHR 0x22))] @ version_group @ [OptG (Lit (CHR 0x22))]"

text \<open>\<^verbatim>\<open>/description: "xcode version"\n[\S\s]+default: (\d+.\d+.\d+?)\n/gm\<close>\<close>

definition modern_rx :: "item list" where
  "modern_rx = lit ''description: '' @ [One (Lit (CHR 0x22))] @ lit ''xcode version''
     @ [One (Lit (CHR 0x22)), One (Lit (CHR 0x0A)), PlusG AnyCh] @ lit ''default: ''
     @ version_group @ [One (Lit (CHR 0x0A))]"

definition extractXcodeVersion :: "string \<Rightarrow> string option" where
  "extractXcodeVersion config =
     (case rx_exec legacy_rx config of
        Some m \<Rightarrow> Some m
      | None \<Rightarrow> rx_exec modern_rx config)"

subsection \<open>The known versions and the fallback\<close>

record xcode_entry =
  fileName :: string
  md5 :: string

definition XcodeVersions :: "(string \<times> xcode_entry) list" where
  "XcodeVersions =
     [(''9.4.1'', \<lparr>fileName = ''Xcode-9.4.1.zip'', md5 = ''84be26baae0ce613e64306e0c39162ae''\<rparr>),
      (''11.1.0'', \<lparr>fileName = ''Xcode-11.1.zip'', md5 = ''f24c258035ed1513afc96eaa9a2500c0''\<rparr>),
      (''10.3.0'', \<lparr>fileName = ''Xcode-10.3.0.zip'', md5 = ''df587e65d9243fc87b22db617e23c376''\<rparr>),
      (''11.5.0'', \<lparr>fileName = ''Xcode-11.5.zip'', md5 = ''2665cc451d86e58bac68dcced0a22945''\<rparr>),
      (''12.0.0-UA'', \<lparr>fileName = ''Xcode-12.0.0-UA.zip'', md5 = ''28c3f8a906be53361260b01fa5792baa''\<rparr>),
      (''12.2.0'', \<lparr>fileName = ''Xcode-12.2.0.zip'', md5 = ''d1bfc9b5bc829ec81b999b78c5795508''\<rparr>),
      (''12.4.0'', \<lparr>fileName = ''Xcode-12.4.0.zip'', md5 = ''20828f7208e67f99928cc88aaafca00c''\<rparr>),
      (''13.2.1'', \<lparr>fileName = ''Xcode-13.2.1.zip'', md5 = ''cb1193a5a23eeeb4e9c5fd87557be8ce''\<rparr>),
      (''13.3.0'', \<lparr>fileName = ''Xcode-13.3.0.zip'', md5 = ''b216a27212fdd0be922d83687aad22bf''\<rparr>),
      (''14.1.0'', \<lparr>fileName = ''Xcode-14.1.0.zip'', md5 = ''3dc1a4d8bc6abd5448be4f2d96a04f62''\<rparr>),
      (''14.3.0'', \<lparr>fileName = ''Xcode-14.3.0.zip'', md5 = ''4bc9043b275625568f81d9727ad6aef8''\<rparr>)]"

text \<open>
  The \<^verbatim>\<open>semver\<close> package is a library, modelled by what it documents. A version is
  \<^verbatim>\<open>major.minor.patch\<close>, optionally followed by \<^verbatim>\<open>-prerelease\<close>. \<^verbatim>\<open>coerce\<close> takes the
  first run of digits of its argument as the major number and up to two following
  \<^verbatim>\<open>.digits\<close> as minor and patch (0 when missing), dropping the rest; \<^verbatim>\<open>valid\<close>
  gives the version's text, or nothing for a number with a leading zero.
  \<^verbatim>\<open>compare\<close> orders by major, minor and patch as numbers; with these equal, a
  version with a prerelease comes before the one without, and two prereleases compare
  as texts.
\<close>

definition digits_val :: "string \<Rightarrow> nat" where
  "digits_val ds = foldl (\<lambda>n c. 10 * n + (of_char c - 48)) 0 ds"

definition next_component :: "string \<Rightarrow> string \<times> string" where
  "next_component r =
     (case r of
        c # d # t \<Rightarrow>
          if c = CHR ''.'' \<and> is_digit d
          then (takeWhile is_digit (d # t), dropWhile is_digit (d # t))
          else (''0'', r)
      | _ \<Rightarrow> (''0'', r))"

definition semver_coerce :: "string \<Rightarrow> (string \<times> string \<times> string) option" where
  "semver_coerce v =
     (let s0 = dropWhile (\<lambda>c. \<not> is_digit c) v;
          major = takeWhile is_digit s0;
          (minor, r2) = next_component (dropWhile is_digit s0);
          (patch, r3) = next_component r2
      in if major = [] then None else Some (major, minor, patch))"

definition leading_zero :: "string \<Rightarrow> bool" where
  "leading_zero ds = (case ds of c # d # t \<Rightarrow> c = CHR ''0'' | _ \<Rightarrow> False)"

definition semver_valid :: "(string \<times> string \<times> string) option \<Rightarrow> string option" where
  "semver_valid v =
     (case v of
        None \<Rightarrow> None
      | Some (a, b, c) \<Rightarrow>
          if leading_zero a \<or> leading_zero b \<or> leading_zero c then None
          else Some (a @ ''.'' @ b @ ''.'' @ c))"

definition semver_parse :: "string \<Rightarrow> (nat \<times> nat \<times> nat) \<times> string" where
  "semver_parse v =
     (let a = takeWhile is_digit v;
          (b, r2) = next_component (dropWhile is_digit v);
          (c, r3) = next_component r2
      in ((digits_val a, digits_val b, digits_val c), r3))"

definition triple_less :: "nat \<times> nat \<times> nat \<Rightarrow> nat \<times> nat \<times> nat \<Rightarrow> bool" where
  "triple_less x y =
     (case (x, y) of
        ((a, b, c), (a', b', c')) \<Rightarrow>
          a < a' \<or> (a = a' \<and> (b < b' \<or> (b = b' \<and> c < c'))))"

fun text_less :: "string \<Rightarrow> string \<Rightarrow> bool" where
  "text_less [] [] = False"
| "text_less [] (y # ys) = True"
| "text_less (x # xs) [] = False"
| "text_less (x # xs) (y # ys) =
     ((of_char x :: nat) < of_char y \<or> (x = y \<and> text_less xs ys))"

definition semver_compare :: "string \<Rightarrow> string \<Rightarrow> int" where
  "semver_compare a b =
     (case (semver_parse a, semver_parse b) of
        ((ka, pa), (kb, pb)) \<Rightarrow>
          if triple_less ka kb then - 1
          else if triple_less kb ka then 1
          else if pa = pb then 0
          else if pa = [] then 1
          else if pb = [] then - 1
          else if text_less pa pb then - 1 else 1)"

definition semver_rcompare :: "string \<Rightarrow> string \<Rightarrow> int" where
  "semver_rcompare a b = semver_compare b a"

text \<open>\<^verbatim>\<open>Array.prototype.sort\<close> with a comparison function: a stable sort.\<close>

fun insert_by :: "('a \<Rightarrow> 'a \<Rightarrow> int) \<Rightarrow> 'a \<Rightarrow> 'a list \<Rightarrow> 'a list" where
  "insert_by cmp x [] = [x]"
| "insert_by cmp x (y # ys) =
     (if cmp x y \<le> 0 then x # y # ys else y # insert_by cmp x ys)"

definition sort_by :: "('a \<Rightarrow> 'a \<Rightarrow> int) \<Rightarrow> 'a list \<Rightarrow> 'a list" where
  "sort_by cmp xs = foldr (insert_by cmp) xs []"

text \<open>
  \<^verbatim>\<open>fallbackXcode\<close>: the keys of the table, each coerced, sorted in descending order,
  and of these the first. Nothing when the table is empty or a key does not coerce.
\<close>

definition fallbackXcode_of :: "string list \<Rightarrow> string option" where
  "fallbackXcode_of keys =
     (let vs = map (\<lambda>v. semver_valid (semver_coerce v)) keys
      in if None \<in> set vs then None
         else (case sort_by semver_rcompare (map the vs) of [] \<Rightarrow> None | v # _ \<Rightarrow> Some v))"

definition fallbackXcode :: "string option" where
  "fallbackXcode = fallbackXcode_of (map fst XcodeVersions)"

subsection \<open>The version the checkout asks for\<close>

definition XcodeDir :: "host \<Rightarrow> path" where
  "XcodeDir h = path_resolve (dirname h) [''..'', ''..'', ''third_party'', ''Xcode'']"

definition XcodePath :: "host \<Rightarrow> path" where
  "XcodePath h = path_resolve (XcodeDir h) [''Xcode.app'']"

definition XcodeZip :: "host \<Rightarrow> path" where
  "XcodeZip h = path_resolve (XcodeDir h) [''Xcode.zip'']"

definition XcodeBaseURL :: string where
  "XcodeBaseURL = ''https://dev-cdn.electronjs.org/xcode/''"

definition count_dots :: "string \<Rightarrow> nat" where
  "count_dots v = length (filter (\<lambda>c. c = CHR ''.'') v)"

definition getXcodeVersion :: "extern \<Rightarrow> filesystem \<Rightarrow> string" where
  "getXcodeVersion x fs =
     (case defaults_read x fs of
        (status, out) \<Rightarrow>
          if status = Some 0
          then (let v = trim out in if count_dots v + 1 = 2 then v @ ''.0'' else v)
          else ''unknown'')"

text \<open>
  The three configuration files of lines 344 to 361, in the order they are tried.
  \<open>read_version\<close> is \<^verbatim>\<open>fs.existsSync(f) && extractXcodeVersion(fs.readFileSync(f))\<close>;
  \<^verbatim>\<open>false\<close> and \<^verbatim>\<open>null\<close> are both \<open>None\<close>.
\<close>

definition buildConfYaml :: "extern \<Rightarrow> path" where
  "buildConfYaml x = path_resolve (evm_root x) [''src'', ''electron'', ''.circleci'', ''build_config.yml'']"

definition configYaml :: "extern \<Rightarrow> path" where
  "configYaml x = path_resolve (evm_root x) [''src'', ''electron'', ''.circleci'', ''config.yml'']"

definition baseYaml :: "extern \<Rightarrow> path" where
  "baseYaml x = path_resolve (evm_root x) [''src'', ''electron'', ''.circleci'', ''config'', ''base.yml'']"

definition read_version :: "path \<Rightarrow> (string option) io" where
  "read_version f s =
     (if existsSync (files s) f
      then andThen (readFileSync f) (\<lambda>c. ret (extractXcodeVersion c)) s
      else ret None s)"

definition detect_version :: "extern \<Rightarrow> (string option) io" where
  "detect_version x =
     andThen (read_version (buildConfYaml x))
     (\<lambda>v1. andThen (if \<not> truthy v1 then read_version (configYaml x) else ret v1)
     (\<lambda>v2. if \<not> truthy v2 then read_version (baseYaml x) else ret v2))"

definition console_warn :: "string \<Rightarrow> unit io" where
  "console_warn msg = console_log msg"

definition return_fallback :: "string \<Rightarrow> string io" where
  "return_fallback msg =
     andThen (console_warn (msg @ '' '' @ js_str fallbackXcode))
     (\<lambda>_. case fallbackXcode of None \<Rightarrow> throw ''TypeError'' | Some v \<Rightarrow> ret v)"

definition expectedXcodeVersion :: "extern \<Rightarrow> string io" where
  "expectedXcodeVersion x =
     andThen (detect_version x)
     (\<lambda>version.
        case sw_vers x of
          None \<Rightarrow> throw ''sw_vers''
        | Some out \<Rightarrow>
            let isVentura = startsWith out ''13''
            in if isVentura \<and> truthy version \<and> \<not> startsWith (js_str version) ''14''
               then return_fallback (''Xcode '' @ js_str version
                      @ '' is not supported on macOS Ventura, falling back to default of'')
               else if \<not> truthy version
               then return_fallback
                      ''failed to automatically identify the required version of Xcode, falling back to default of''
               else if map_of XcodeVersions (js_str version) = None
               then return_fallback (''automatically detected an unknown version of Xcode ''
                      @ js_str version @ '', falling back to default of'')
               else ret (js_str version))"

subsection \<open>\<^verbatim>\<open>ensureXcode\<close>\<close>

definition fixBadVersioned103 :: "host \<Rightarrow> unit io" where
  "fixBadVersioned103 h s =
     (let bad = path_resolve (XcodeDir h) [''Xcode-10.3.app''];
          good = path_resolve (XcodeDir h) [''Xcode-10.3.0.app'']
      in if existsSync (files s) bad
         then (if existsSync (files s) good then rimraf_sync bad s else renameSync bad good s)
         else ret () s)"

text \<open>
  Modelled from the spec: \<^verbatim>\<open>ensureDir\<close> of \<^verbatim>\<open>./paths\<close> is not among the sources. The
  spec counts it among the generic file path helpers; it is taken to create the
  directory with its missing ancestors when nothing exists at the path.
\<close>

definition ensureDir :: "path \<Rightarrow> unit io" where
  "ensureDir p s =
     (if existsSync (files s) p then ret () s
      else (Inr (), s\<lparr>files := (\<lambda>q. if prefix q p \<and> files s q = None then Some Dir else files s q),
                      effects := effects s @ [MadeDir p]\<rparr>))"

definition hashFile :: "extern \<Rightarrow> path \<Rightarrow> string io" where
  "hashFile x file =
     andThen (console_log (''Calculating hash for '' @ path_string file))
     (\<lambda>_ s. ret (trim (md5_q x (file_bytes (files s) file))) s)"

text \<open>Lines 423 to 436: an archive left by an earlier run is used when its hash is right.\<close>

definition xcode_shouldDownload :: "host \<Rightarrow> extern \<Rightarrow> string \<Rightarrow> bool io" where
  "xcode_shouldDownload h x expectedXcodeHash s =
     (if existsSync (files s) (XcodeZip h)
      then andThen (hashFile x (XcodeZip h))
             (\<lambda>existingHash.
                if existingHash = expectedXcodeHash then ret False
                else andThen (console_log (''Got existing hash '' @ existingHash
                                @ '' which did not match '' @ expectedXcodeHash
                                @ '' so redownloading Xcode''))
                     (\<lambda>_. andThen (rimraf_sync (XcodeZip h)) (\<lambda>_. ret True))) s
      else ret True s)"

text \<open>Lines 454 to 460: the hash of the downloaded archive against the expected one.\<close>

definition xcode_mismatch_message :: "string \<Rightarrow> string \<Rightarrow> string" where
  "xcode_mismatch_message newHash expectedXcodeHash =
     ''Downloaded Xcode zip had hash '' @ [CHR 0x22] @ newHash @ [CHR 0x22]
       @ '' which does not match expected hash '' @ [CHR 0x22] @ expectedXcodeHash @ [CHR 0x22]"

definition xcode_verify :: "host \<Rightarrow> extern \<Rightarrow> string \<Rightarrow> unit io" where
  "xcode_verify h x expectedXcodeHash =
     andThen (hashFile x (XcodeZip h))
     (\<lambda>newHash. if newHash \<noteq> expectedXcodeHash
                 then andThen (rimraf_sync (XcodeZip h))
                        (\<lambda>_. fatal (xcode_mismatch_message newHash expectedXcodeHash))
                 else ret ())"

text \<open>Lines 439 to 461: the download and its check.\<close>

definition xcode_download :: "host \<Rightarrow> extern \<Rightarrow> xcode_entry \<Rightarrow> unit io" where
  "xcode_download h x entry =
     (let XcodeURL = XcodeBaseURL @ fileName entry
      in andThen (console_log (''Downloading '' @ XcodeURL @ '' into '' @ path_string (XcodeZip h)))
         (\<lambda>_. andThen (run_download x XcodeURL (XcodeZip h))
         (\<lambda>status. andThen (if status \<noteq> Some 0
                             then andThen (rimraf_sync (XcodeZip h))
                                    (\<lambda>_. fatal ''Failure while downloading Xcode zip'')
                             else ret ())
         (\<lambda>_. xcode_verify h x (md5 entry)))))"

text \<open>
  Lines 463 to 472: extraction into \<^verbatim>\<open>tmp_unzip\<close>, removed first (\<open>xcode_unzip\<close>,
  lines 463 to 468); the exit status of \<^verbatim>\<open>unzip\<close> is not looked at. The extracted
  application is renamed to its versioned path, then the archive and the scratch
  directory are removed.
\<close>

definition xcode_unzipPath :: "host \<Rightarrow> path" where
  "xcode_unzipPath h = path_resolve (XcodeDir h) [''tmp_unzip'']"

definition xcode_unzip :: "host \<Rightarrow> extern \<Rightarrow> path \<Rightarrow> unit io" where
  "xcode_unzip h x eventualVersionedPath =
     (let unzipPath = xcode_unzipPath h
      in andThen (console_log (''Extracting '' @ path_string (XcodeZip h) @ '' into ''
                     @ path_string eventualVersionedPath))
         (\<lambda>_. andThen (rimraf_sync unzipPath)
         (\<lambda>_ s. extract_into ''unzip'' (XcodeZip h) unzipPath
                   (snd (unzip_q x (file_bytes (files s) (XcodeZip h)))) s)))"

definition xcode_extract :: "host \<Rightarrow> extern \<Rightarrow> path \<Rightarrow> unit io" where
  "xcode_extract h x eventualVersionedPath =
     (let unzipPath = xcode_unzipPath h
      in andThen (xcode_unzip h x eventualVersionedPath)
         (\<lambda>_. andThen (renameSync (path_resolve unzipPath [''Xcode.app'']) eventualVersionedPath)
         (\<lambda>_. andThen (rimraf_sync (XcodeZip h))
         (\<lambda>_. rimraf_sync unzipPath))))"

text \<open>Lines 422 to 473, run when the versioned application is not there yet.\<close>

definition xcode_obtain :: "host \<Rightarrow> extern \<Rightarrow> xcode_entry \<Rightarrow> path \<Rightarrow> unit io" where
  "xcode_obtain h x entry eventualVersionedPath =
     andThen (xcode_shouldDownload h x (md5 entry))
     (\<lambda>shouldDownload. andThen (if shouldDownload then xcode_download h x entry else ret ())
     (\<lambda>_. xcode_extract h x eventualVersionedPath))"

text \<open>
  Lines 477 to 491: the active application makes room for the link to the expected
  version. \<^verbatim>\<open>fs.statSync\<close> resolves symbolic links, so the node it reports for a link
  is the node the link leads to.
\<close>

definition statSync :: "path \<Rightarrow> node io" where
  "statSync p s = (case stat (files s) p of None \<Rightarrow> (Inl (Throw ''ENOENT''), s) | Some n \<Rightarrow> (Inr n, s))"

definition xcode_retire :: "host \<Rightarrow> extern \<Rightarrow> unit io" where
  "xcode_retire h x s =
     (if existsSync (files s) (XcodePath h)
      then andThen (statSync (XcodePath h))
             (\<lambda>st. if isSymbolicLink st then unlinkSync (XcodePath h)
                    else (\<lambda>s1.
                      let versionedXcode = path_resolve (XcodeDir h)
                                             [''Xcode-'' @ getXcodeVersion x (files s1) @ ''.app'']
                      in if \<not> existsSync (files s1) versionedXcode
                         then renameSync (XcodePath h) versionedXcode s1
                         else rimraf_sync (XcodePath h) s1)) s
      else ret () s)"

definition xcode_swap :: "host \<Rightarrow> extern \<Rightarrow> string \<Rightarrow> path \<Rightarrow> unit io" where
  "xcode_swap h x expected eventualVersionedPath =
     andThen (xcode_retire h x)
     (\<lambda>_. andThen (console_log (''Updating active Xcode version to '' @ expected))
     (\<lambda>_. symlinkSync eventualVersionedPath (XcodePath h)))"

text \<open>Lines 418 to 491, the body run when the active version is not the expected one.\<close>

definition xcode_install :: "host \<Rightarrow> extern \<Rightarrow> string \<Rightarrow> unit io" where
  "xcode_install h x expected =
     andThen (ensureDir (XcodeDir h))
     (\<lambda>_. case map_of XcodeVersions expected of
             None \<Rightarrow> throw ''TypeError''
           | Some entry \<Rightarrow>
               let eventualVersionedPath = path_resolve (XcodeDir h) [''Xcode-'' @ expected @ ''.app'']
               in andThen (\<lambda>s. if \<not> existsSync (files s) eventualVersionedPath
                                then xcode_obtain h x entry eventualVersionedPath s
                                else ret () s)
                  (\<lambda>_. xcode_swap h x expected eventualVersionedPath))"

definition ensureXcode :: "host \<Rightarrow> extern \<Rightarrow> bool io" where
  "ensureXcode h x =
     andThen (expectedXcodeVersion x)
     (\<lambda>expected. andThen (fixBadVersioned103 h)
     (\<lambda>_. andThen (\<lambda>s. ret (\<not> existsSync (files s) (XcodePath h)
                              \<or> getXcodeVersion x (files s) \<noteq> expected) s)
     (\<lambda>shouldEnsureXcode. andThen (if shouldEnsureXcode then xcode_install h x expected else ret ())
     (\<lambda>_. andThen (rimraf_sync (XcodeZip h))
     (\<lambda>_. ret True)))))"

section \<open>The build command: \<^verbatim>\<open>ensureGNGen\<close>\<close>

text \<open>
  \<^verbatim>\<open>ensureGNGen\<close> either calls \<^verbatim>\<open>runGNGen\<close> or does nothing. The output directory
  (\<^verbatim>\<open>evmConfig.outDir(config)\<close>) and the list \<^verbatim>\<open>config.gen.args\<close> are its inputs.
  \<^verbatim>\<open>Array.prototype.join\<close> puts the separator between the elements.
\<close>

datatype gn_action = RunGNGen | NoGNGen

fun js_join :: "string \<Rightarrow> string list \<Rightarrow> string" where
  "js_join sep [] = []"
| "js_join sep [a] = a"
| "js_join sep (a # b # r) = a @ sep @ js_join sep (b # r)"

definition native_eol :: "string \<Rightarrow> string" where
  "native_eol plat = (if plat = ''win32'' then [CHR 0x0D, CHR 0x0A] else [CHR 0x0A])"

definition ensureGNGen :: "host \<Rightarrow> path \<Rightarrow> string list \<Rightarrow> gn_action io" where
  "ensureGNGen h outDir args s =
     (let buildfile = path_resolve outDir [''build.ninja'']
      in if \<not> existsSync (files s) buildfile then ret RunGNGen s
         else (let argsFile = path_resolve outDir [''args.gn'']
               in if \<not> existsSync (files s) argsFile then ret RunGNGen s
                  else andThen (readFileSync argsFile)
                         (\<lambda>contents.
                            if trim contents \<noteq> trim (js_join (native_eol (platform h)) args)
                            then ret RunGNGen else ret NoGNGen) s))"

section \<open>Notions of the statements and example inputs\<close>

text \<open>
  A Linux host whose module directory is \<^verbatim>\<open>/work/build-tools/src/utils\<close>, the checksum
  the table gives for it, and a state whose only file is the install marker.
\<close>

definition example_host :: host where
  "example_host = \<lparr>dirname = [''work'', ''build-tools'', ''src'', ''utils''], platform = ''linux'',
     arch = ''x64'', is_arm = False, env_redownload = None\<rparr>"

definition linux_sha :: string where
  "linux_sha = ''f94f784f58b414f3556da9f03baf911588ce45e9a6ed35e26fb5ee21a632863e''"

definition marker_state :: "string \<Rightarrow> state" where
  "marker_state c =
     \<lparr>files = [[''work'', ''build-tools'', ''third_party'', ''goma'', ''.sha''] \<mapsto> File c],
      console = [], effects = []\<rparr>"

text \<open>
  An output directory \<^verbatim>\<open>/work/out/Testing\<close> with a build manifest and a persisted
  arguments file of the given content.
\<close>

definition gen_state :: "string \<Rightarrow> state" where
  "gen_state c =
     \<lparr>files = [[''work'', ''out'', ''Testing'', ''build.ninja''] \<mapsto> File ''rule cc'',
               [''work'', ''out'', ''Testing'', ''args.gn''] \<mapsto> File c],
      console = [], effects = []\<rparr>"

text \<open>
  The regeneration gate as the spec words it: both texts have their line endings
  normalized to the platform's convention and are trimmed before they are compared.
  \<open>spec_normalize_eol\<close> rewrites every line ending (\<^verbatim>\<open>\r\n\<close> or \<^verbatim>\<open>\n\<close>) as the
  platform's own.
\<close>

fun spec_normalize_eol :: "string \<Rightarrow> string \<Rightarrow> string" where
  "spec_normalize_eol eol [] = []"
| "spec_normalize_eol eol [c] = (if c = CHR 0x0A then eol else [c])"
| "spec_normalize_eol eol (c # d # r) =
     (if c = CHR 0x0D \<and> d = CHR 0x0A then eol @ spec_normalize_eol eol r
      else if c = CHR 0x0A then eol @ spec_normalize_eol eol (d # r)
      else c # spec_normalize_eol eol (d # r))"

definition spec_needsRegeneration :: "string \<Rightarrow> string \<Rightarrow> string \<Rightarrow> bool" where
  "spec_needsRegeneration eol persisted desiredArgsText =
     (trim (spec_normalize_eol eol persisted) \<noteq> trim (spec_normalize_eol eol desiredArgsText))"

text \<open>
  Whether a configuration file yields a version: it is unmatched when it does not exist
  or is a file in which neither pattern matches, and it matches with \<open>v\<close> when it is a
  file from which \<^verbatim>\<open>extractXcodeVersion\<close> gets \<open>v\<close>. \<open>first_match\<close> says that \<open>v\<close>
  comes from the first of the three files, in their order, that exists and matches;
  \<open>no_match\<close> that none of them does.
\<close>

definition source_unmatched :: "filesystem \<Rightarrow> path \<Rightarrow> bool" where
  "source_unmatched fs f =
     (case stat fs f of
        None \<Rightarrow> True
      | Some (File c) \<Rightarrow> extractXcodeVersion c = None
      | Some _ \<Rightarrow> False)"

definition source_matches :: "filesystem \<Rightarrow> path \<Rightarrow> string \<Rightarrow> bool" where
  "source_matches fs f v =
     (case stat fs f of Some (File c) \<Rightarrow> extractXcodeVersion c = Some v | _ \<Rightarrow> False)"

definition first_match :: "filesystem \<Rightarrow> extern \<Rightarrow> string \<Rightarrow> bool" where
  "first_match fs x v =
     (source_matches fs (buildConfYaml x) v
      \<or> (source_unmatched fs (buildConfYaml x) \<and> source_matches fs (configYaml x) v)
      \<or> (source_unmatched fs (buildConfYaml x) \<and> source_unmatched fs (configYaml x)
          \<and> source_matches fs (baseYaml x) v))"

definition no_match :: "filesystem \<Rightarrow> extern \<Rightarrow> bool" where
  "no_match fs x =
     (source_unmatched fs (buildConfYaml x) \<and> source_unmatched fs (configYaml x)
      \<and> source_unmatched fs (baseYaml x))"

text \<open>
  Whether every match of a pattern captures at least one character: inside the group
  there is an item that consumes one.
\<close>

fun captures_text :: "item list \<Rightarrow> bool \<Rightarrow> bool" where
  "captures_text [] g = False"
| "captures_text (Open # r) g = captures_text r True"
| "captures_text (Close # r) g = captures_text r False"
| "captures_text (OptG c # r) g = captures_text r g"
| "captures_text (One c # r) g = (g \<or> captures_text r g)"
| "captures_text (PlusG c # r) g = (g \<or> captures_text r g)"
| "captures_text (PlusL c # r) g = (g \<or> captures_text r g)"

text \<open>
  An environment where every tool succeeds: the download leaves an archive whose digest
  is the Linux checksum, \<^verbatim>\<open>tar\<close> unpacks a \<^verbatim>\<open>goma\<close> directory, the machine runs
  macOS 12 with Xcode 13.2.1 active, and the checkout is \<^verbatim>\<open>/work/electron\<close>.
\<close>

definition example_extern :: extern where
  "example_extern =
     \<lparr>goma_ctl_stop = True,
      download_js = (\<lambda>url. (Some 0, Some ''archive'')),
      sha256_hex = (\<lambda>bytes. ''f94f784f58b414f3556da9f03baf911588ce45e9a6ed35e26fb5ee21a632863e''),
      tar_zxvf = (\<lambda>bytes. (Some 0, [([''goma''], Dir), ([''goma'', ''gomacc''], File ''elf'')])),
      unzipSync = (\<lambda>bytes. Some [([''goma''], Dir)]),
      evm_root = [''work'', ''electron''],
      sw_vers = Some ''12.6.3'',
      defaults_read = (\<lambda>fs. (Some 0, ''13.2.1'')),
      md5_q = (\<lambda>bytes. ''4bc9043b275625568f81d9727ad6aef8''),
      unzip_q = (\<lambda>bytes. (Some 0, [([], Dir), ([''Xcode.app''], Dir)]))\<rparr>"

text \<open>
  A checkout without \<^verbatim>\<open>build_config.yml\<close>, with a \<^verbatim>\<open>config.yml\<close> of content \<open>c2\<close>
  and a \<^verbatim>\<open>config/base.yml\<close> of content \<open>c3\<close>.
\<close>

definition resolver_state :: "string \<Rightarrow> string \<Rightarrow> state" where
  "resolver_state c2 c3 =
     \<lparr>files = [[''work'', ''electron'', ''src'', ''electron'', ''.circleci'', ''config.yml''] \<mapsto> File c2,
               [''work'', ''electron'', ''src'', ''electron'', ''.circleci'', ''config'', ''base.yml'']
                 \<mapsto> File c3],
      console = [], effects = []\<rparr>"

text \<open>
  The effects a run added to those already recorded, and the three effects with which
  the accelerator's refresh starts its transfer: the install directory is removed, an
  earlier download is removed, the download is started.
\<close>

definition new_effects :: "state \<Rightarrow> state \<Rightarrow> effect list" where
  "new_effects s s' = drop (length (effects s)) (effects s')"

definition goma_download_effect :: "host \<Rightarrow> string option \<Rightarrow> string \<Rightarrow> effect" where
  "goma_download_effect h sha fn =
     Spawned ''download.js'' [goma_downloadURL sha fn, path_string (goma_tmpDownload h fn)]"

definition goma_cleanup_and_download :: "host \<Rightarrow> string option \<Rightarrow> string \<Rightarrow> effect list" where
  "goma_cleanup_and_download h sha fn =
     [Removed (gomaDir h), Removed (goma_tmpDownload h fn), goma_download_effect h sha fn]"

text \<open>
  A checkout with an accelerator already installed under a stale marker, and an
  environment in which the transfer fails and leaves a partial file.
\<close>

definition old_install_state :: state where
  "old_install_state =
     \<lparr>files = [[''work''] \<mapsto> Dir,
               [''work'', ''build-tools''] \<mapsto> Dir,
               [''work'', ''build-tools'', ''third_party''] \<mapsto> Dir,
               [''work'', ''build-tools'', ''third_party'', ''goma''] \<mapsto> Dir,
               [''work'', ''build-tools'', ''third_party'', ''goma'', ''.sha''] \<mapsto> File ''0ld'',
               [''work'', ''build-tools'', ''third_party'', ''goma'', ''gomacc''] \<mapsto> File ''old elf''],
      console = [], effects = []\<rparr>"

definition failing_download :: extern where
  "failing_download = example_extern\<lparr>download_js := (\<lambda>url. (Some 1, Some ''partial''))\<rparr>"




text \<open>
  A checkout in which the accelerator archive and the Xcode archive have been
  downloaded and an earlier extraction has left files in \<^verbatim>\<open>tmp_unzip\<close>; an environment
  whose \<^verbatim>\<open>tar\<close> exits with status 2; a Windows host; an environment whose
  \<^verbatim>\<open>unzipSync\<close> throws and whose \<^verbatim>\<open>unzip\<close> extracts nothing; the versioned path of
  Xcode 14.3.0.
\<close>

definition downloaded_state :: state where
  "downloaded_state =
     \<lparr>files = [[''work''] \<mapsto> Dir,
               [''work'', ''build-tools''] \<mapsto> Dir,
               [''work'', ''build-tools'', ''third_party''] \<mapsto> Dir,
               [''work'', ''build-tools'', ''third_party'', ''goma.gn''] \<mapsto> File ''use_goma = true'',
               [''work'', ''build-tools'', ''third_party'', ''goma-linux.tgz''] \<mapsto> File ''archive'',
               [''work'', ''build-tools'', ''third_party'', ''Xcode''] \<mapsto> Dir,
               [''work'', ''build-tools'', ''third_party'', ''Xcode'', ''Xcode.zip''] \<mapsto> File ''zip'',
               [''work'', ''build-tools'', ''third_party'', ''Xcode'', ''tmp_unzip''] \<mapsto> Dir,
               [''work'', ''build-tools'', ''third_party'', ''Xcode'', ''tmp_unzip'', ''stale''] \<mapsto> File ''old''],
      console = [], effects = []\<rparr>"


definition windows_host :: host where
  "windows_host = example_host\<lparr>platform := ''win32''\<rparr>"


definition example_eventual :: path where
  "example_eventual = [''work'', ''build-tools'', ''third_party'', ''Xcode'', ''Xcode-14.3.0.app'']"

text \<open>
  A checkout whose active Xcode is a symbolic link to \<^verbatim>\<open>/Applications/Xcode.app\<close> and
  in which Xcode 14.3.0 is already extracted.
\<close>

definition linked_xcode_state :: state where
  "linked_xcode_state =
     \<lparr>files = [[''Applications''] \<mapsto> Dir,
               [''Applications'', ''Xcode.app''] \<mapsto> Dir,
               [''work''] \<mapsto> Dir,
               [''work'', ''build-tools''] \<mapsto> Dir,
               [''work'', ''build-tools'', ''third_party''] \<mapsto> Dir,
               [''work'', ''build-tools'', ''third_party'', ''Xcode''] \<mapsto> Dir,
               [''work'', ''build-tools'', ''third_party'', ''Xcode'', ''Xcode-14.3.0.app''] \<mapsto> Dir,
               [''work'', ''build-tools'', ''third_party'', ''Xcode'', ''Xcode.app'']
                  \<mapsto> Symlink [''Applications'', ''Xcode.app'']],
      console = [], effects = []\<rparr>"

section \<open>Basic facts\<close>

lemma realpath_plain: "(\<And>t. fs p \<noteq> Some (Symlink t)) \<Longrightarrow> realpath fs p = Some p"
  by (auto simp: realpath_def eval_nat_numeral split: option.splits node.splits)

lemma stat_plain: "(\<And>t. fs p \<noteq> Some (Symlink t)) \<Longrightarrow> stat fs p = fs p"
  by (simp add: stat_def realpath_plain)

lemma stat_absent [simp]: "fs p = None \<Longrightarrow> stat fs p = None"
  by (simp add: stat_plain)

lemma stat_file [simp]: "fs p = Some (File c) \<Longrightarrow> stat fs p = Some (File c)"
  by (simp add: stat_plain)

lemma stat_dir [simp]: "fs p = Some Dir \<Longrightarrow> stat fs p = Some Dir"
  by (simp add: stat_plain)

lemmas path_defs =
  gomaShaFile_def gomaDir_def gomaGnFile_def goma_tmpDownload_def XcodeDir_def XcodePath_def
  XcodeZip_def xcode_unzipPath_def buildConfYaml_def configYaml_def baseYaml_def
  path_resolve_def resolve_seg_def path_dirname_def

lemma example_gomaShaFile:
  "gomaShaFile example_host = [''work'', ''build-tools'', ''third_party'', ''goma'', ''.sha'']"
  by (simp add: path_defs example_host_def)


section \<open>The install check\<close>

text \<open>
  C4, as the code has it. The accelerator's install check answers no when the marker
  file does not exist, whatever checksum is asked for. When the marker is a file, the
  answer is yes exactly when its content, as it is and not trimmed, equals the expected
  checksum and the variable \<^verbatim>\<open>ELECTRON_FORGE_GOMA_REDOWNLOAD\<close> is unset or empty. The
  check changes nothing.
\<close>

theorem goma_isInstalled_exact:
  "(\<not> existsSync (files s) (gomaShaFile h) \<longrightarrow> goma_isInstalled h sha s = (Inr False, s)) \<and>
   (stat (files s) (gomaShaFile h) = Some (File c) \<longrightarrow>
      goma_isInstalled h sha s = (Inr (Some c = sha \<and> \<not> truthy (env_redownload h)), s))"
  by (simp add: goma_isInstalled_def existsSync_def readFileSync_def andThen_def ret_def)

theorem goma_isInstalled_exact_witness:
  "\<not> existsSync (files (marker_state linux_sha)) (gomaShaFile (example_host\<lparr>dirname := []\<rparr>)) \<and>
   goma_isInstalled (example_host\<lparr>dirname := []\<rparr>) (Some linux_sha) (marker_state linux_sha)
     = (Inr False, marker_state linux_sha) \<and>
   stat (files (marker_state linux_sha)) (gomaShaFile example_host) = Some (File linux_sha) \<and>
   goma_isInstalled example_host (Some linux_sha) (marker_state linux_sha)
     = (Inr True, marker_state linux_sha)"
  using goma_isInstalled_exact [where s = "marker_state linux_sha" and h = example_host
          and sha = "Some linux_sha" and c = linux_sha]
        goma_isInstalled_exact [where s = "marker_state linux_sha"
          and h = "example_host\<lparr>dirname := []\<rparr>" and sha = "Some linux_sha"]
  by (simp add: example_gomaShaFile marker_state_def example_host_def truthy_def existsSync_def
      path_defs)

text \<open>
  C4 as stated fails: a marker whose content is the expected checksum followed by a
  line feed equals it once trimmed, and the check still answers no.
\<close>

theorem goma_isInstalled_trim_counterexample:
  "stat (files (marker_state (linux_sha @ [CHR 0x0A]))) (gomaShaFile example_host)
      = Some (File (linux_sha @ [CHR 0x0A])) \<and>
   trim (linux_sha @ [CHR 0x0A]) = linux_sha \<and>
   fst (goma_isInstalled example_host (Some linux_sha) (marker_state (linux_sha @ [CHR 0x0A])))
      = Inr False"
  by (simp add: example_gomaShaFile marker_state_def goma_isInstalled_def existsSync_def
      readFileSync_def andThen_def ret_def trim_def js_space_def linux_sha_def)

section \<open>The regeneration gate\<close>

text \<open>
  C9, as the code has it. \<^verbatim>\<open>ensureGNGen\<close> runs the generator when the build manifest
  is absent and when the persisted arguments file is absent. When both are there it
  runs the generator exactly when the persisted content, trimmed, differs from the
  desired arguments joined with the platform's line ending, trimmed. The line endings
  of the persisted content are compared as they are.
\<close>

theorem ensureGNGen_compares_as_persisted:
  "(\<not> existsSync (files s) (path_resolve outDir [''build.ninja''])
      \<longrightarrow> ensureGNGen h outDir args s = (Inr RunGNGen, s)) \<and>
   (\<not> existsSync (files s) (path_resolve outDir [''args.gn''])
      \<longrightarrow> ensureGNGen h outDir args s = (Inr RunGNGen, s)) \<and>
   (existsSync (files s) (path_resolve outDir [''build.ninja'']) \<and>
    stat (files s) (path_resolve outDir [''args.gn'']) = Some (File contents)
      \<longrightarrow> ensureGNGen h outDir args s =
            (Inr (if trim contents \<noteq> trim (js_join (native_eol (platform h)) args)
                  then RunGNGen else NoGNGen), s))"
  by (simp add: ensureGNGen_def existsSync_def readFileSync_def andThen_def ret_def Let_def)

theorem ensureGNGen_compares_as_persisted_witness:
  "ensureGNGen example_host [''work'', ''out'', ''Testing''] [''a=1'', ''b=2'']
       (gen_state (''a=1'' @ [CHR 0x0A] @ ''b=2'' @ [CHR 0x0A])) =
     (Inr NoGNGen, gen_state (''a=1'' @ [CHR 0x0A] @ ''b=2'' @ [CHR 0x0A])) \<and>
   ensureGNGen example_host [''work'', ''out'', ''Testing''] [''a=1'', ''b=2''] (marker_state []) =
     (Inr RunGNGen, marker_state [])"
  using ensureGNGen_compares_as_persisted [where s = "gen_state (''a=1'' @ [CHR 0x0A] @ ''b=2'' @ [CHR 0x0A])"
          and outDir = "[''work'', ''out'', ''Testing'']" and h = example_host
          and args = "[''a=1'', ''b=2'']" and contents = "''a=1'' @ [CHR 0x0A] @ ''b=2'' @ [CHR 0x0A]"]
        ensureGNGen_compares_as_persisted [where s = "marker_state []"
          and outDir = "[''work'', ''out'', ''Testing'']" and h = example_host
          and args = "[''a=1'', ''b=2'']"]
  by (simp add: gen_state_def marker_state_def example_host_def existsSync_def path_defs trim_def
      js_space_def native_eol_def)

text \<open>
  C9 as stated fails: on Linux, a persisted file with the same two arguments separated
  by \<^verbatim>\<open>\r\n\<close> equals the desired text once both are normalized, and the generator is
  run all the same.
\<close>

theorem ensureGNGen_crlf_counterexample:
  "\<not> spec_needsRegeneration (native_eol (platform example_host))
       (''a=1'' @ [CHR 0x0D, CHR 0x0A] @ ''b=2'')
       (js_join (native_eol (platform example_host)) [''a=1'', ''b=2'']) \<and>
   fst (ensureGNGen example_host [''work'', ''out'', ''Testing''] [''a=1'', ''b=2'']
          (gen_state (''a=1'' @ [CHR 0x0D, CHR 0x0A] @ ''b=2''))) = Inr RunGNGen"
  by (simp add: spec_needsRegeneration_def ensureGNGen_def gen_state_def example_host_def
      existsSync_def readFileSync_def andThen_def ret_def path_defs trim_def js_space_def
      native_eol_def)

section \<open>The version resolver\<close>

text \<open>A version that \<^verbatim>\<open>extractXcodeVersion\<close> returns is never the empty string.\<close>

lemma rx_match_nonempty:
  "rx_match r s g cap = Some m \<Longrightarrow> cap \<noteq> [] \<or> captures_text r g \<Longrightarrow> m \<noteq> []"
  by (induction r s g cap rule: rx_match.induct)
     (auto simp: keep_def split: if_splits option.splits)

lemma rx_exec_nonempty:
  "rx_exec r s = Some m \<Longrightarrow> captures_text r False \<Longrightarrow> m \<noteq> []"
  by (induction r s rule: rx_exec.induct)
     (auto split: option.splits dest: rx_match_nonempty)

lemma extractXcodeVersion_nonempty: "extractXcodeVersion c = Some v \<Longrightarrow> v \<noteq> []"
proof -
  have "captures_text legacy_rx False" "captures_text modern_rx False"
    by (simp_all add: legacy_rx_def modern_rx_def lit_def version_group_def)
  then show "extractXcodeVersion c = Some v \<Longrightarrow> v \<noteq> []"
    by (auto simp: extractXcodeVersion_def split: option.splits dest: rx_exec_nonempty)
qed

lemma source_matches_nonempty: "source_matches fs f v \<Longrightarrow> v \<noteq> []"
  by (auto simp: source_matches_def split: option.splits node.splits
      dest: extractXcodeVersion_nonempty)

lemma read_version_state: "snd (read_version f s) = s"
  by (simp add: read_version_def andThen_def readFileSync_def ret_def existsSync_def
      split: option.splits node.splits)

lemma read_version_unmatched:
  "source_unmatched (files s) f \<Longrightarrow> read_version f s = (Inr None, s)"
  by (auto simp: source_unmatched_def read_version_def andThen_def readFileSync_def ret_def
      existsSync_def split: option.splits node.splits)

lemma read_version_matches:
  "source_matches (files s) f v \<Longrightarrow> read_version f s = (Inr (Some v), s)"
  by (auto simp: source_matches_def read_version_def andThen_def readFileSync_def ret_def
      existsSync_def split: option.splits node.splits)

lemma detect_version_state: "snd (detect_version x s) = s"
proof -
  have r: "\<And>f. read_version f s = (fst (read_version f s), s)"
    by (metis prod.collapse read_version_state)
  show ?thesis
    unfolding detect_version_def andThen_def
    apply (subst r)
    apply (simp split: sum.splits)
    apply (intro allI impI conjI)
    apply (subst r, simp add: ret_def read_version_state split: sum.splits)
    apply (auto simp: ret_def read_version_state split: sum.splits)
    done
qed

text \<open>
  The first of the three files that exists and matches gives the detected version;
  nothing is asked of the files after it. When none matches nothing is detected.
\<close>

lemma detect_version_first:
  assumes "first_match (files s) x v"
  shows "detect_version x s = (Inr (Some v), s)"
proof -
  have "v \<noteq> []"
    using assms by (auto simp: first_match_def dest: source_matches_nonempty)
  with assms show ?thesis
    by (auto simp: first_match_def detect_version_def andThen_def read_version_unmatched
        read_version_matches truthy_def ret_def)
qed

lemma detect_version_none:
  assumes "no_match (files s) x"
  shows "detect_version x s = (Inr None, s)"
  using assms
  by (simp add: no_match_def detect_version_def andThen_def read_version_unmatched truthy_def)

lemma fallbackXcode_value: "fallbackXcode = Some ''14.3.0''"
  by (simp add: fallbackXcode_def fallbackXcode_of_def XcodeVersions_def semver_valid_def
      semver_coerce_def next_component_def is_digit_def leading_zero_def sort_by_def
      semver_rcompare_def semver_compare_def semver_parse_def digits_val_def triple_less_def Let_def)

lemma known_highest: "\<forall>k \<in> set (map fst XcodeVersions). semver_compare k ''14.3.0'' \<le> 0"
  by (simp add: XcodeVersions_def semver_compare_def semver_parse_def digits_val_def
      triple_less_def Let_def next_component_def is_digit_def)

lemma sorted_first: "take 1 (sort_by semver_rcompare (map fst XcodeVersions)) = [''14.3.0'']"
  by (simp add: XcodeVersions_def sort_by_def semver_rcompare_def semver_compare_def
      semver_parse_def digits_val_def triple_less_def Let_def next_component_def is_digit_def)

lemma expected_after_detect:
  assumes "fst (detect_version x s) = Inr version"
  shows "expectedXcodeVersion x s =
     (case sw_vers x of
          None \<Rightarrow> throw ''sw_vers'' s
        | Some out \<Rightarrow>
            let isVentura = startsWith out ''13''
            in if isVentura \<and> truthy version \<and> \<not> startsWith (js_str version) ''14''
               then return_fallback (''Xcode '' @ js_str version
                      @ '' is not supported on macOS Ventura, falling back to default of'') s
               else if \<not> truthy version
               then return_fallback
                      ''failed to automatically identify the required version of Xcode, falling back to default of'' s
               else if map_of XcodeVersions (js_str version) = None
               then return_fallback (''automatically detected an unknown version of Xcode ''
                      @ js_str version @ '', falling back to default of'') s
               else ret (js_str version) s)"
proof -
  have "detect_version x s = (Inr version, s)"
    using assms detect_version_state [of x s] by (metis prod.collapse)
  then show ?thesis
    by (auto simp: expectedXcodeVersion_def andThen_def Let_def split: option.splits)
qed

lemma return_fallback_eq:
  "return_fallback msg s = (Inr ''14.3.0'', s\<lparr>console := console s @ [msg @ '' 14.3.0'']\<rparr>)"
  by (simp add: return_fallback_def andThen_def console_warn_def console_log_def
      fallbackXcode_value ret_def js_str_def)

lemma example_unmatched:
  "source_unmatched (files (resolver_state ''version: 2.1'' c3)) (buildConfYaml example_extern) \<and>
   source_unmatched (files (resolver_state ''version: 2.1'' c3)) (configYaml example_extern)"
  by (simp add: source_unmatched_def resolver_state_def example_extern_def path_defs
      extractXcodeVersion_def legacy_rx_def modern_rx_def lit_def version_group_def keep_def
      is_digit_def)

lemma example_matches_1321:
  "source_matches (files (resolver_state ''version: 2.1'' ''  xcode: 13.2.1''))
     (baseYaml example_extern) ''13.2.1''"
  by (simp add: source_matches_def resolver_state_def example_extern_def path_defs
      extractXcodeVersion_def legacy_rx_def modern_rx_def lit_def version_group_def keep_def
      is_digit_def)

lemma example_matches_999:
  "source_matches (files (resolver_state ''version: 2.1'' ''  xcode: 9.9.9''))
     (baseYaml example_extern) ''9.9.9''"
  by (simp add: source_matches_def resolver_state_def example_extern_def path_defs
      extractXcodeVersion_def legacy_rx_def modern_rx_def lit_def version_group_def keep_def
      is_digit_def)

lemma example_first_match_1321:
  "first_match (files (resolver_state ''version: 2.1'' ''  xcode: 13.2.1'')) example_extern ''13.2.1''"
  using example_unmatched example_matches_1321 by (simp add: first_match_def)

lemma example_first_match_999:
  "first_match (files (resolver_state ''version: 2.1'' ''  xcode: 9.9.9'')) example_extern ''9.9.9''"
  using example_unmatched example_matches_999 by (simp add: first_match_def)

text \<open>
  C7, as the code has it. The three configuration files are tried in their order, and
  the version extracted from the first of them that exists and matches its pattern is
  the one detected; the files after it are not consulted, since nothing is assumed of
  them. When that version is in the table of known versions, and the machine is not on
  macOS 13 or the version starts with 14, \<^verbatim>\<open>expectedXcodeVersion\<close> returns it and
  changes nothing. The scenario of the claim is the third case of \<open>first_match\<close>: the
  first file absent, the second present without a match, the third matching.
\<close>

theorem expectedXcodeVersion_first_match:
  assumes "sw_vers x = Some out"
      and "first_match (files s) x v"
      and "map_of XcodeVersions v \<noteq> None"
      and "\<not> (startsWith out ''13'' \<and> \<not> startsWith v ''14'')"
  shows "expectedXcodeVersion x s = (Inr v, s)"
proof -
  have ne: "v \<noteq> []"
    using assms(3) by (auto simp: XcodeVersions_def)
  have "fst (detect_version x s) = Inr (Some v)"
    using detect_version_first [OF assms(2)] by simp
  then show ?thesis
    using assms(1,3,4) ne
    by (auto simp: expected_after_detect Let_def truthy_def js_str_def ret_def)
qed

theorem expectedXcodeVersion_first_match_witness:
  "source_unmatched (files (resolver_state ''version: 2.1'' ''  xcode: 13.2.1''))
     (buildConfYaml example_extern) \<and>
   source_unmatched (files (resolver_state ''version: 2.1'' ''  xcode: 13.2.1''))
     (configYaml example_extern) \<and>
   source_matches (files (resolver_state ''version: 2.1'' ''  xcode: 13.2.1''))
     (baseYaml example_extern) ''13.2.1'' \<and>
   fst (expectedXcodeVersion example_extern (resolver_state ''version: 2.1'' ''  xcode: 13.2.1''))
     = Inr ''13.2.1''"
proof -
  have "sw_vers example_extern = Some ''12.6.3''" by (simp add: example_extern_def)
  from expectedXcodeVersion_first_match [OF this example_first_match_1321]
  have "fst (expectedXcodeVersion example_extern (resolver_state ''version: 2.1'' ''  xcode: 13.2.1''))
     = Inr ''13.2.1''"
    by (simp add: XcodeVersions_def startsWith_def)
  then show ?thesis using example_unmatched example_matches_1321 by simp
qed

text \<open>
  C7 as stated fails: with the first file absent, the second without a match and the
  third matching with 9.9.9, a version the table does not know, the resolver returns
  14.3.0 and not the extracted version.
\<close>

theorem expectedXcodeVersion_unknown_counterexample:
  "source_unmatched (files (resolver_state ''version: 2.1'' ''  xcode: 9.9.9''))
     (buildConfYaml example_extern) \<and>
   source_unmatched (files (resolver_state ''version: 2.1'' ''  xcode: 9.9.9''))
     (configYaml example_extern) \<and>
   source_matches (files (resolver_state ''version: 2.1'' ''  xcode: 9.9.9''))
     (baseYaml example_extern) ''9.9.9'' \<and>
   fst (expectedXcodeVersion example_extern (resolver_state ''version: 2.1'' ''  xcode: 9.9.9''))
     = Inr ''14.3.0''"
proof -
  have d: "fst (detect_version example_extern (resolver_state ''version: 2.1'' ''  xcode: 9.9.9''))
             = Inr (Some ''9.9.9'')"
    using detect_version_first [OF example_first_match_999] by simp
  have "fst (expectedXcodeVersion example_extern (resolver_state ''version: 2.1'' ''  xcode: 9.9.9''))
          = Inr ''14.3.0''"
    unfolding expected_after_detect [OF d]
    by (simp add: example_extern_def Let_def startsWith_def truthy_def
        js_str_def XcodeVersions_def return_fallback_eq)
  then show ?thesis using example_unmatched example_matches_999 by simp
qed

text \<open>
  C8. When none of the three files matches, or the version of the first match is not
  in the table of known versions, or the machine is on macOS 13 and that version does
  not start with 14, \<^verbatim>\<open>expectedXcodeVersion\<close> returns 14.3.0 without a fatal error,
  and the only change is one warning line on the console. 14.3.0 is what
  \<^verbatim>\<open>fallbackXcode\<close> computes; it comes first when the known version identifiers are
  sorted in descending semantic-version order, and no known version is above it.
\<close>

theorem expectedXcodeVersion_fallback:
  assumes "sw_vers x = Some out"
      and "no_match (files s) x
           \<or> (first_match (files s) x v \<and>
               (map_of XcodeVersions v = None
                \<or> (startsWith out ''13'' \<and> \<not> startsWith v ''14'')))"
  shows "fst (expectedXcodeVersion x s) = Inr ''14.3.0'' \<and>
         (\<exists>warning. snd (expectedXcodeVersion x s) = s\<lparr>console := console s @ [warning]\<rparr>) \<and>
         fallbackXcode = Some ''14.3.0'' \<and>
         take 1 (sort_by semver_rcompare (map fst XcodeVersions)) = [''14.3.0''] \<and>
         (\<forall>k \<in> set (map fst XcodeVersions). semver_compare k ''14.3.0'' \<le> 0)"
proof -
  have "\<exists>msg. expectedXcodeVersion x s = return_fallback msg s"
    using assms(2)
  proof
    assume "no_match (files s) x"
    then have "fst (detect_version x s) = Inr None"
      by (simp add: detect_version_none)
    then show ?thesis
      using assms(1) by (auto simp: expected_after_detect Let_def truthy_def)
  next
    assume a: "first_match (files s) x v \<and>
               (map_of XcodeVersions v = None
                \<or> (startsWith out ''13'' \<and> \<not> startsWith v ''14''))"
    then have "first_match (files s) x v" by simp
    then have "fst (detect_version x s) = Inr (Some v)"
      by (simp add: detect_version_first)
    then show ?thesis
      using assms(1) a by (auto simp: expected_after_detect Let_def js_str_def)
  qed
  then show ?thesis
    using fallbackXcode_value sorted_first known_highest by (auto simp: return_fallback_eq)
qed

theorem expectedXcodeVersion_fallback_witness:
  "fst (expectedXcodeVersion (example_extern\<lparr>sw_vers := Some ''13.4''\<rparr>)
          (resolver_state ''version: 2.1'' ''  xcode: 13.2.1'')) = Inr ''14.3.0'' \<and>
   fst (expectedXcodeVersion example_extern (resolver_state ''version: 2.1'' ''  xcode: 9.9.9''))
     = Inr ''14.3.0'' \<and>
   fst (expectedXcodeVersion example_extern (resolver_state ''version: 2.1'' ''version: 2.1''))
     = Inr ''14.3.0''"
proof -
  have m: "first_match (files (resolver_state ''version: 2.1'' ''  xcode: 13.2.1''))
             (example_extern\<lparr>sw_vers := Some ''13.4''\<rparr>) ''13.2.1''"
    using example_first_match_1321
    by (simp add: first_match_def buildConfYaml_def configYaml_def baseYaml_def)
  have n: "no_match (files (resolver_state ''version: 2.1'' ''version: 2.1'')) example_extern"
    by (simp add: no_match_def source_unmatched_def resolver_state_def example_extern_def path_defs
        extractXcodeVersion_def legacy_rx_def modern_rx_def lit_def version_group_def keep_def
        is_digit_def)
  have u: "map_of XcodeVersions ''9.9.9'' = None" by (simp add: XcodeVersions_def)
  have s1: "sw_vers (example_extern\<lparr>sw_vers := Some ''13.4''\<rparr>) = Some ''13.4''" by simp
  have s2: "sw_vers example_extern = Some ''12.6.3''" by (simp add: example_extern_def)
  note t = expectedXcodeVersion_fallback
  from t [OF s1, where v = "''13.2.1''"
      and s = "resolver_state ''version: 2.1'' ''  xcode: 13.2.1''"] m
  have 1: "fst (expectedXcodeVersion (example_extern\<lparr>sw_vers := Some ''13.4''\<rparr>)
          (resolver_state ''version: 2.1'' ''  xcode: 13.2.1'')) = Inr ''14.3.0''"
    by (simp add: startsWith_def)
  from t [OF s2, where s = "resolver_state ''version: 2.1'' ''version: 2.1''"] n
  have 2: "fst (expectedXcodeVersion example_extern (resolver_state ''version: 2.1'' ''version: 2.1''))
     = Inr ''14.3.0''"
    by simp
  from t [OF s2, where v = "''9.9.9''" and s = "resolver_state ''version: 2.1'' ''  xcode: 9.9.9''"]
    example_first_match_999 u
  have 3: "fst (expectedXcodeVersion example_extern (resolver_state ''version: 2.1'' ''  xcode: 9.9.9''))
     = Inr ''14.3.0''"
    by simp
  from 1 2 3 show ?thesis by simp
qed

section \<open>The accelerator pipeline\<close>

lemma new_effects_append [simp]: "effects s' = effects s @ new \<Longrightarrow> new_effects s s' = new"
  by (simp add: new_effects_def)

lemma andThenE:
  assumes "andThen m f s = (r, s')"
  obtains (fail) e where "m s = (Inl e, s')" and "r = Inl e"
        | (ok) a s1 where "m s = (Inr a, s1)" and "f a s1 = (r, s')"
  using assms by (auto simp: andThen_def split: prod.splits sum.splits)

lemma gomaDir_split: "gomaDir h = path_dirname (gomaDir h) @ [''goma'']"
  by (simp add: path_defs butlast_append)

lemma gomaShaFile_split: "gomaShaFile h = gomaDir h @ [''.sha'']"
  by (simp add: path_defs)

lemma gomaGnFile_split: "gomaGnFile h = path_dirname (gomaDir h) @ [''goma.gn'']"
  by (simp add: path_defs butlast_append)


lemma tmp_split: "fn \<noteq> ''..'' \<Longrightarrow> goma_tmpDownload h fn = path_dirname (gomaDir h) @ [fn]"
  by (simp add: path_defs butlast_append)

lemma tmp_not_under:
  "fn \<noteq> ''goma'' \<Longrightarrow> fn \<noteq> ''..'' \<Longrightarrow> \<not> prefix (gomaDir h) (goma_tmpDownload h fn)"
  by (subst gomaDir_split, subst tmp_split) auto

lemma goma_filename_facts:
  "goma_filename p = Some fn \<Longrightarrow> fn \<noteq> ''goma'' \<and> fn \<noteq> ''..''"
  by (auto simp: goma_filename_def split: if_splits)



lemma goma_stop_effects:
  assumes "goma_stop h x s = (r, s')"
  shows "files s' = files s \<and>
         (\<exists>new. effects s' = effects s @ new \<and> new \<in> {[], [Spawned ''python3'' [''goma_ctl.py'', ''stop'']]})"
  using assms
  by (auto simp: goma_stop_def andThen_def spawned_def ret_def throw_def split: if_splits)

lemma goma_fetch_clears:
  assumes "goma_fetch h x sha fn s = (r, s')" and "fn \<noteq> ''goma''" and "fn \<noteq> ''..''"
  shows "(\<forall>q. prefix (gomaDir h) q \<longrightarrow> files s' q = None) \<and>
         (\<exists>post. effects s' = effects s @ [Removed (gomaDir h), Removed (goma_tmpDownload h fn),
             Spawned ''download.js'' [goma_downloadURL sha fn, path_string (goma_tmpDownload h fn)]] @ post
            \<and> post \<in> {[], [Removed (goma_tmpDownload h fn)]}) \<and>
         (r = Inr () \<or> r = Inl (Exit 1))"
  using assms tmp_not_under [of fn h]
  by (auto simp: goma_fetch_def Let_def andThen_def rimraf_sync_def console_log_def run_download_def
      fatal_def ret_def split: prod.splits if_splits option.splits)

lemma goma_verify_effects:
  assumes "goma_verify x sha tmp s = (r, s')"
  shows "(\<forall>q. files s q = None \<longrightarrow> files s' q = None) \<and>
         (\<exists>new. effects s' = effects s @ new \<and> new \<in> {[], [Removed tmp]})"
  using assms
  by (auto simp: goma_verify_def Let_def andThen_def readFileSync_def rimraf_sync_def console_log_def
      process_exit_def ret_def split: prod.splits if_splits option.splits node.splits)

lemma goma_extract_effects:
  assumes "goma_extract x fn tmp s = (r, s')"
  shows "(s' = s \<and> r = Inl (Throw ''unzipSync'')) \<or>
         (\<exists>tool. effects s' = effects s @ [Extracted tool tmp (path_dirname tmp)])"
  using assms
  by (auto simp: goma_extract_def Let_def andThen_def extract_into_def fatal_def ret_def throw_def
      path_defs split: prod.splits if_splits option.splits)

lemma goma_finish_effects:
  assumes "goma_finish h sha tmp s = (r, s')"
  shows "(effects s' = effects s @ [Removed tmp] \<and> (\<exists>e. r = Inl e)) \<or>
         (effects s' = effects s @ [Removed tmp, Wrote (gomaShaFile h) (js_str sha)] \<and> r = Inr sha)"
  using assms
  by (auto simp: goma_finish_def andThen_def rimraf_sync_def writeFileSync_def ret_def
      split: prod.splits if_splits option.splits)

lemma realpath_fuel_target:
  "realpath_fuel fs n p = Some q \<Longrightarrow> fs q \<noteq> Some (Symlink t)"
  by (induction n arbitrary: p) (auto split: option.splits node.splits)

lemma realpath_fuel_written:
  "realpath_fuel fs n p = Some q \<Longrightarrow> realpath_fuel (fs(q \<mapsto> File c)) n p = Some q"
proof (induction n arbitrary: p)
  case 0
  then show ?case by (auto split: option.splits node.splits)
next
  case (Suc n)
  show ?case
  proof (cases "\<exists>t. fs p = Some (Symlink t)")
    case True
    then obtain t where t: "fs p = Some (Symlink t)" by blast
    with Suc.prems have r: "realpath_fuel fs n t = Some q" by simp
    have "p \<noteq> q" using realpath_fuel_target [OF r] t by auto
    with t Suc.IH [OF r] show ?thesis by simp
  next
    case False
    with Suc.prems have "q = p" by (auto split: option.splits node.splits)
    then show ?thesis by simp
  qed
qed

lemma writeFileSync_reads_back:
  "writeFileSync p c s = (Inr (), s') \<Longrightarrow> stat (files s') p = Some (File c)"
  by (auto simp: writeFileSync_def stat_def realpath_def realpath_fuel_written
      split: option.splits if_splits)

lemma stat_never_link: "stat fs p \<noteq> Some (Symlink t)"
  using realpath_fuel_target [of fs 32 p]
  by (auto simp: stat_def realpath_def split: option.splits)

lemma goma_finish_marker:
  "goma_finish h sha tmp s = (Inr v, s') \<Longrightarrow> stat (files s') (gomaShaFile h) = Some (File (js_str sha))"
  by (auto simp: goma_finish_def andThen_def rimraf_sync_def ret_def
      split: prod.splits sum.splits dest: writeFileSync_reads_back)

text \<open>
  Every way a refresh can end, by the effects it leaves: stopped before the cleanup,
  stopped by the download or the check, stopped by the extraction or the last steps, or
  finished with the marker written.
\<close>

lemma goma_refresh_traces:
  assumes run: "goma_refresh h x sha s = (r, s')"
      and fn: "goma_filename (gomaPlatform h) = Some fn"
  shows "\<exists>pre. pre \<in> {[], [Spawned ''python3'' [''goma_ctl.py'', ''stop'']]} \<and>
     ((effects s' = effects s @ pre \<and> (\<exists>e. r = Inl e))
    \<or> (\<exists>post. effects s' = effects s @ pre @ goma_cleanup_and_download h sha fn @ post
           \<and> post \<in> {[], [Removed (goma_tmpDownload h fn)]} \<and> (\<exists>e. r = Inl e)
           \<and> (\<forall>q. prefix (gomaDir h) q \<longrightarrow> files s' q = None))
    \<or> (\<exists>tool post. effects s' = effects s @ pre @ goma_cleanup_and_download h sha fn
             @ [Extracted tool (goma_tmpDownload h fn) (path_dirname (goma_tmpDownload h fn))] @ post
           \<and> post \<in> {[], [Removed (goma_tmpDownload h fn)]} \<and> (\<exists>e. r = Inl e))
    \<or> (\<exists>tool. effects s' = effects s @ pre @ goma_cleanup_and_download h sha fn
             @ [Extracted tool (goma_tmpDownload h fn) (path_dirname (goma_tmpDownload h fn)),
                Removed (goma_tmpDownload h fn), Wrote (gomaShaFile h) (js_str sha)]
           \<and> r = Inr sha \<and> stat (files s') (gomaShaFile h) = Some (File (js_str sha))))"
proof -
  let ?tmp = "goma_tmpDownload h fn"
  let ?cd = "goma_cleanup_and_download h sha fn"
  note fnf = goma_filename_facts [OF fn]
  from run fn have chain:
    "andThen (goma_stop h x)
       (\<lambda>_. andThen (goma_fetch h x sha fn)
       (\<lambda>_. andThen (goma_verify x sha ?tmp)
       (\<lambda>_. andThen (goma_extract x fn ?tmp)
       (\<lambda>_. goma_finish h sha ?tmp)))) s = (r, s')"
    by (simp add: goma_refresh_def goma_install_def)
  from chain show ?thesis
  proof (cases rule: andThenE)
    case (fail e)
    from goma_stop_effects [OF fail(1)] fail(2) show ?thesis by auto
  next
    case (ok a s1)
    from goma_stop_effects [OF ok(1)] obtain pre where
      pre: "effects s1 = effects s @ pre" "pre \<in> {[], [Spawned ''python3'' [''goma_ctl.py'', ''stop'']]}"
      by blast
    from ok(2) show ?thesis
    proof (cases rule: andThenE)
      case (fail e)
      from goma_fetch_clears [OF fail(1)] fnf obtain post where
        "\<forall>q. prefix (gomaDir h) q \<longrightarrow> files s' q = None"
        "effects s' = effects s1 @ ?cd @ post" "post \<in> {[], [Removed ?tmp]}"
        by (auto simp: goma_cleanup_and_download_def goma_download_effect_def)
      with pre fail(2) show ?thesis by auto
    next
      case (ok b s2)
      from goma_fetch_clears [OF ok(1)] fnf obtain post where
        f2: "\<forall>q. prefix (gomaDir h) q \<longrightarrow> files s2 q = None"
        "effects s2 = effects s1 @ ?cd @ post" "post \<in> {[], [Removed ?tmp]}"
        by (auto simp: goma_cleanup_and_download_def goma_download_effect_def)
      have post: "post = []"
        using ok(1) f2(2)
        by (auto simp: goma_fetch_def Let_def andThen_def rimraf_sync_def console_log_def
            run_download_def fatal_def ret_def goma_cleanup_and_download_def goma_download_effect_def
            split: prod.splits if_splits option.splits)
      from ok(2) show ?thesis
      proof (cases rule: andThenE)
        case (fail e)
        from goma_verify_effects [OF fail(1)] f2 pre fail(2) post show ?thesis by auto
      next
        case (ok c s3)
        have s3: "s3 = s2"
          using ok(1)
          by (auto simp: goma_verify_def Let_def andThen_def readFileSync_def rimraf_sync_def
              console_log_def process_exit_def ret_def
              split: prod.splits if_splits option.splits node.splits)
        from ok(2) show ?thesis
        proof (cases rule: andThenE)
          case (fail e)
          from goma_extract_effects [OF fail(1)] f2 pre fail(2) post s3 show ?thesis by auto
        next
          case (ok d s4)
          from goma_extract_effects [OF ok(1)] obtain tool where
            "effects s4 = effects s3 @ [Extracted tool ?tmp (path_dirname ?tmp)]"
            by auto
          moreover have "\<And>v. r = Inr v \<Longrightarrow> stat (files s') (gomaShaFile h) = Some (File (js_str sha))"
            using ok(2) goma_finish_marker by blast
          ultimately show ?thesis
            using goma_finish_effects [OF ok(2)] f2 pre post s3 by auto
        qed
      qed
    qed
  qed
qed


lemma example_filename: "goma_filename (gomaPlatform example_host) = Some ''goma-linux.tgz''"
  by (simp add: goma_filename_def gomaPlatform_def example_host_def)

lemma windows_filename: "goma_filename (gomaPlatform windows_host) = Some ''goma-win.zip''"
  by (simp add: goma_filename_def gomaPlatform_def example_host_def windows_host_def)

text \<open>
  C10. Take a run of the refresh (what \<^verbatim>\<open>downloadAndPrepareGoma\<close> does once the install
  check has said no) in which the download was started. Its effects then are: a
  prefix, the removal of the whole install directory, the removal of an earlier
  download, the download, and a rest; the download occurs nowhere else. If the run ended
  without an extraction, that is at the download or at the check of the checksum, it
  failed and nothing is left at or below the install directory, the marker included.
\<close>

theorem goma_refresh_clears_install:
  assumes run: "goma_refresh h x sha s = (r, s')"
      and fn: "goma_filename (gomaPlatform h) = Some fn"
      and began: "goma_download_effect h sha fn \<in> set (new_effects s s')"
  shows "(\<exists>pre post. new_effects s s' = pre @ goma_cleanup_and_download h sha fn @ post
            \<and> goma_download_effect h sha fn \<notin> set pre \<and> goma_download_effect h sha fn \<notin> set post) \<and>
         ((\<forall>t a d. Extracted t a d \<notin> set (new_effects s s')) \<longrightarrow>
            (\<exists>e. r = Inl e) \<and> files s' (gomaShaFile h) = None \<and>
            (\<forall>q. prefix (gomaDir h) q \<longrightarrow> files s' q = None))"
proof -
  have sha_under: "prefix (gomaDir h) (gomaShaFile h)"
    by (simp add: gomaShaFile_split)
  from goma_refresh_traces [OF run fn] show ?thesis
  proof (elim exE conjE disjE, goal_cases)
    case (1 pre e)
    with began show ?case by (auto simp: goma_download_effect_def)
  next
    case (2 pre post e)
    have "goma_download_effect h sha fn \<notin> set pre \<and> goma_download_effect h sha fn \<notin> set post"
      using 2(1,3) by (auto simp: goma_download_effect_def)
    with 2 sha_under show ?case by (auto simp del: append_assoc)
  next
    case (3 pre tool post e)
    have a: "goma_download_effect h sha fn \<notin> set pre"
      using 3(1) by (auto simp: goma_download_effect_def)
    have b: "goma_download_effect h sha fn \<notin> set
        ([Extracted tool (goma_tmpDownload h fn) (path_dirname (goma_tmpDownload h fn))] @ post)"
      using 3(3) by (auto simp: goma_download_effect_def)
    have c: "new_effects s s' = pre @ goma_cleanup_and_download h sha fn @
        ([Extracted tool (goma_tmpDownload h fn) (path_dirname (goma_tmpDownload h fn))] @ post)"
      using 3(2) by simp
    have d: "Extracted tool (goma_tmpDownload h fn) (path_dirname (goma_tmpDownload h fn))
        \<in> set (new_effects s s')"
      using c by simp
    from a b c d show ?case by blast
  next
    case (4 pre tool)
    let ?post = "[Extracted tool (goma_tmpDownload h fn) (path_dirname (goma_tmpDownload h fn)),
                Removed (goma_tmpDownload h fn), Wrote (gomaShaFile h) (js_str sha)]"
    have a: "goma_download_effect h sha fn \<notin> set pre"
      using 4(1) by (auto simp: goma_download_effect_def)
    have b: "goma_download_effect h sha fn \<notin> set ?post"
      by (auto simp: goma_download_effect_def)
    have c: "new_effects s s' = pre @ goma_cleanup_and_download h sha fn @ ?post"
      using 4(2) by simp
    have d: "Extracted tool (goma_tmpDownload h fn) (path_dirname (goma_tmpDownload h fn))
        \<in> set (new_effects s s')"
      using c by simp
    from a b c d show ?case by blast
  qed
qed

theorem goma_refresh_clears_install_witness:
  "fst (goma_refresh example_host failing_download (Some linux_sha) old_install_state) = Inl (Exit 1) \<and>
   files (snd (goma_refresh example_host failing_download (Some linux_sha) old_install_state))
     (gomaShaFile example_host) = None"
proof -
  let ?run = "goma_refresh example_host failing_download (Some linux_sha) old_install_state"
  have new: "new_effects old_install_state (snd ?run) =
      goma_cleanup_and_download example_host (Some linux_sha) ''goma-linux.tgz''
        @ [Removed (goma_tmpDownload example_host ''goma-linux.tgz'')]"
    by code_simp
  have began: "goma_download_effect example_host (Some linux_sha) ''goma-linux.tgz''
      \<in> set (new_effects old_install_state (snd ?run))"
    unfolding new by (simp add: goma_cleanup_and_download_def)
  have noex: "\<forall>t a d. Extracted t a d \<notin> set (new_effects old_install_state (snd ?run))"
    unfolding new by (simp add: goma_cleanup_and_download_def goma_download_effect_def)
  have r: "fst ?run = Inl (Exit 1)" by code_simp
  from goma_refresh_clears_install [OF surjective_pairing example_filename began] noex r
  show ?thesis by blast
qed



section \<open>Checksum verification\<close>





section \<open>Extraction\<close>



lemma xcode_unzip_eq:
  "fst (xcode_unzip h x ev s) = Inr ()"
  "effects (snd (xcode_unzip h x ev s))
     = effects s @ [Removed (xcode_unzipPath h), Extracted ''unzip'' (XcodeZip h) (xcode_unzipPath h)]"
  "files (snd (xcode_unzip h x ev s))
     = add_entries (xcode_unzipPath h)
         (snd (unzip_q x (file_bytes (\<lambda>q. if prefix (xcode_unzipPath h) q then None else files s q)
                            (XcodeZip h))))
         (\<lambda>q. if prefix (xcode_unzipPath h) q then None else files s q)"
  by (simp_all add: xcode_unzip_def andThen_def extract_into_def console_log_def rimraf_sync_def Let_def
      cong: if_cong)





lemma goma_tmp_dirname:
  "goma_filename (gomaPlatform h) = Some fn \<Longrightarrow>
     path_resolve (goma_tmpDownload h fn) [''..''] = path_dirname (gomaDir h)"
  using goma_filename_facts [of "gomaPlatform h" fn]
  by (simp add: path_defs butlast_append)

text \<open>
  C3, as the code has it. The accelerator archive of either kind is extracted into
  the directory that holds the download, which is the parent of the install directory:
  the entries of the archive are added to the files as they are, with no scratch
  directory. The Xcode archive is extracted into \<^verbatim>\<open>tmp_unzip\<close>, which is removed just
  before, so the entries are added where nothing is at or below that path; the scratch
  directory is neither the active application nor a versioned one.
\<close>

theorem extraction_destinations:
  assumes fn: "goma_filename (gomaPlatform h) = Some fn"
  shows "(endsWith fn ''.tgz'' \<longrightarrow>
           effects (snd (goma_extract x fn (goma_tmpDownload h fn) s))
             = effects s @ [Extracted ''tar'' (goma_tmpDownload h fn) (path_dirname (gomaDir h))] \<and>
           files (snd (goma_extract x fn (goma_tmpDownload h fn) s))
             = add_entries (path_dirname (gomaDir h))
                 (snd (tar_zxvf x (file_bytes (files s) (goma_tmpDownload h fn)))) (files s)) \<and>
         (\<not> endsWith fn ''.tgz'' \<and> unzipSync x (file_bytes (files s) (goma_tmpDownload h fn)) = Some es \<longrightarrow>
           effects (snd (goma_extract x fn (goma_tmpDownload h fn) s))
             = effects s @ [Extracted ''unzipSync'' (goma_tmpDownload h fn) (path_dirname (gomaDir h))] \<and>
           files (snd (goma_extract x fn (goma_tmpDownload h fn) s))
             = add_entries (path_dirname (gomaDir h)) es (files s)) \<and>
         effects (snd (xcode_unzip h x ev s))
           = effects s @ [Removed (xcode_unzipPath h),
                          Extracted ''unzip'' (XcodeZip h) (xcode_unzipPath h)] \<and>
         files (snd (xcode_unzip h x ev s))
           = add_entries (xcode_unzipPath h)
               (snd (unzip_q x (file_bytes (\<lambda>q. if prefix (xcode_unzipPath h) q then None else files s q)
                                  (XcodeZip h))))
               (\<lambda>q. if prefix (xcode_unzipPath h) q then None else files s q) \<and>
         xcode_unzipPath h \<noteq> XcodePath h \<and>
         xcode_unzipPath h \<noteq> path_resolve (XcodeDir h) [''Xcode-'' @ v @ ''.app'']"
proof (intro conjI impI)
  note defs = goma_extract_def andThen_def extract_into_def fatal_def ret_def Let_def
    goma_tmp_dirname [OF fn]
  assume a: "endsWith fn ''.tgz''"
  then show "effects (snd (goma_extract x fn (goma_tmpDownload h fn) s))
             = effects s @ [Extracted ''tar'' (goma_tmpDownload h fn) (path_dirname (gomaDir h))]"
    by (auto simp: defs split: prod.splits)
  from a show "files (snd (goma_extract x fn (goma_tmpDownload h fn) s))
             = add_entries (path_dirname (gomaDir h))
                 (snd (tar_zxvf x (file_bytes (files s) (goma_tmpDownload h fn)))) (files s)"
    by (auto simp: defs split: prod.splits)
next
  note defs = goma_extract_def andThen_def extract_into_def fatal_def ret_def Let_def
    goma_tmp_dirname [OF fn]
  assume a: "\<not> endsWith fn ''.tgz'' \<and> unzipSync x (file_bytes (files s) (goma_tmpDownload h fn)) = Some es"
  then show "effects (snd (goma_extract x fn (goma_tmpDownload h fn) s))
             = effects s @ [Extracted ''unzipSync'' (goma_tmpDownload h fn) (path_dirname (gomaDir h))]"
    by (auto simp: defs)
  from a show "files (snd (goma_extract x fn (goma_tmpDownload h fn) s))
             = add_entries (path_dirname (gomaDir h)) es (files s)"
    by (auto simp: defs)
next
  show "effects (snd (xcode_unzip h x ev s))
           = effects s @ [Removed (xcode_unzipPath h),
                          Extracted ''unzip'' (XcodeZip h) (xcode_unzipPath h)]"
    by (rule xcode_unzip_eq)
  show "files (snd (xcode_unzip h x ev s))
           = add_entries (xcode_unzipPath h)
               (snd (unzip_q x (file_bytes (\<lambda>q. if prefix (xcode_unzipPath h) q then None else files s q)
                                  (XcodeZip h))))
               (\<lambda>q. if prefix (xcode_unzipPath h) q then None else files s q)"
    by (rule xcode_unzip_eq)
  show "xcode_unzipPath h \<noteq> XcodePath h" by (simp add: path_defs)
  show "xcode_unzipPath h \<noteq> path_resolve (XcodeDir h) [''Xcode-'' @ v @ ''.app'']"
    by (simp add: path_defs)
qed

theorem extraction_destinations_witness:
  "effects (snd (goma_extract example_extern ''goma-linux.tgz''
       (goma_tmpDownload example_host ''goma-linux.tgz'') downloaded_state))
     = [Extracted ''tar'' (goma_tmpDownload example_host ''goma-linux.tgz'')
          (path_dirname (gomaDir example_host))] \<and>
   effects (snd (goma_extract example_extern ''goma-win.zip''
       (goma_tmpDownload windows_host ''goma-win.zip'') downloaded_state))
     = [Extracted ''unzipSync'' (goma_tmpDownload windows_host ''goma-win.zip'')
          (path_dirname (gomaDir windows_host))]"
proof -
  have a: "endsWith ''goma-linux.tgz'' ''.tgz''" by code_simp
  have b: "\<not> endsWith ''goma-win.zip'' ''.tgz'' \<and>
      unzipSync example_extern (file_bytes (files downloaded_state)
        (goma_tmpDownload windows_host ''goma-win.zip'')) = Some [([''goma''], Dir)]"
    by code_simp
  have c: "effects downloaded_state = []" by code_simp
  from extraction_destinations [OF example_filename, where x = example_extern and s = downloaded_state] a c
  have 1: "effects (snd (goma_extract example_extern ''goma-linux.tgz''
       (goma_tmpDownload example_host ''goma-linux.tgz'') downloaded_state))
     = [Extracted ''tar'' (goma_tmpDownload example_host ''goma-linux.tgz'')
          (path_dirname (gomaDir example_host))]" by simp
  from extraction_destinations [OF windows_filename, where x = example_extern and s = downloaded_state
      and es = "[([''goma''], Dir)]"] b c
  have 2: "effects (snd (goma_extract example_extern ''goma-win.zip''
       (goma_tmpDownload windows_host ''goma-win.zip'') downloaded_state))
     = [Extracted ''unzipSync'' (goma_tmpDownload windows_host ''goma-win.zip'')
          (path_dirname (gomaDir windows_host))]" by simp
  from 1 2 show ?thesis by simp
qed

text \<open>
  C3 as stated fails: in a refresh of the accelerator on Linux, \<^verbatim>\<open>tar\<close> is run in
  \<^verbatim>\<open>third_party\<close>, a directory that exists and holds the archive; no directory is
  created for the extraction and nothing is renamed, and right after the extraction
  step the file of the archive is in the install directory.
\<close>

theorem goma_extracts_in_place_counterexample:
  "files old_install_state [''work'', ''build-tools'', ''third_party''] = Some Dir \<and>
   effects (snd (goma_refresh example_host example_extern (Some linux_sha) old_install_state))
     = goma_cleanup_and_download example_host (Some linux_sha) ''goma-linux.tgz''
       @ [Extracted ''tar'' [''work'', ''build-tools'', ''third_party'', ''goma-linux.tgz'']
            [''work'', ''build-tools'', ''third_party''],
          Removed [''work'', ''build-tools'', ''third_party'', ''goma-linux.tgz''],
          Wrote (gomaShaFile example_host) linux_sha] \<and>
   files (snd (goma_extract example_extern ''goma-linux.tgz''
                 (goma_tmpDownload example_host ''goma-linux.tgz'') downloaded_state))
     (gomaDir example_host @ [''gomacc'']) = Some (File ''elf'')"
  by code_simp

section \<open>The swap of the active Xcode\<close>

text \<open>
  \<^verbatim>\<open>fs.statSync\<close> never reports a symbolic link, so the branch of line 479 that
  unlinks is never taken: whatever is at the active path is renamed aside or removed.
\<close>

lemma statSync_never_link: "statSync p s = (Inr n, s') \<Longrightarrow> \<not> isSymbolicLink n"
  using stat_never_link [of "files s" p]
  by (auto simp: statSync_def isSymbolicLink_def split: option.splits node.splits)

lemma xcode_retire_no_unlink:
  "xcode_retire h x s =
     (if existsSync (files s) (XcodePath h)
      then (let versionedXcode = path_resolve (XcodeDir h)
                                   [''Xcode-'' @ getXcodeVersion x (files s) @ ''.app'']
            in if \<not> existsSync (files s) versionedXcode
               then renameSync (XcodePath h) versionedXcode s
               else rimraf_sync (XcodePath h) s)
      else ret () s)"
  using stat_never_link [of "files s" "XcodePath h"]
  by (auto simp: xcode_retire_def andThen_def statSync_def existsSync_def isSymbolicLink_def Let_def
      split: option.splits node.splits)

text \<open>
  C6 at an input where the code departs from it. The active path is a symbolic link
  to an application of version 13.2.1 for which no versioned directory exists, and
  14.3.0 is expected. The link is not removed: it is renamed to
  \<^verbatim>\<open>Xcode-13.2.1.app\<close>, where it stays, before the new link is made.
\<close>

theorem xcode_swap_renames_link:
  "files linked_xcode_state (XcodePath example_host) = Some (Symlink [''Applications'', ''Xcode.app'']) \<and>
   fst (xcode_swap example_host example_extern ''14.3.0'' example_eventual linked_xcode_state) = Inr () \<and>
   effects (snd (xcode_swap example_host example_extern ''14.3.0'' example_eventual linked_xcode_state))
     = [Renamed (XcodePath example_host)
          [''work'', ''build-tools'', ''third_party'', ''Xcode'', ''Xcode-13.2.1.app''],
        Linked example_eventual (XcodePath example_host)] \<and>
   files (snd (xcode_swap example_host example_extern ''14.3.0'' example_eventual linked_xcode_state))
     [''work'', ''build-tools'', ''third_party'', ''Xcode'', ''Xcode-13.2.1.app'']
     = Some (Symlink [''Applications'', ''Xcode.app''])"
  by code_simp

lemma ensureXcode_renames_link:
  "fst (ensureXcode example_host example_extern linked_xcode_state) = Inr True \<and>
   effects (snd (ensureXcode example_host example_extern linked_xcode_state))
     = [Renamed (XcodePath example_host)
          [''work'', ''build-tools'', ''third_party'', ''Xcode'', ''Xcode-13.2.1.app''],
        Linked example_eventual (XcodePath example_host), Removed (XcodeZip example_host)]"
  by code_simp

end
